theory Spec2Isabelle
  imports Main
begin

section \<open>Values carried by a request body\<close>

text \<open>
  The handlers of \<^verbatim>\<open>server.js\<close> destructure \<^verbatim>\<open>req.body\<close>, which
  \<^verbatim>\<open>express.json\<close> has parsed from JSON. A field that the body does not carry
  destructures to \<^verbatim>\<open>undefined\<close>. Only the truthiness of a number is ever used by
  the server, so numbers are kept as integers.
\<close>

datatype json =
    JUndefined
  | JNull
  | JBool bool
  | JNum int
  | JStr string
  | JArr "json list"
  | JObj "(string \<times> json) list"

text \<open>JavaScript's \<^verbatim>\<open>!x\<close> is \<open>\<not> truthy x\<close>.\<close>

fun truthy :: "json \<Rightarrow> bool" where
  "truthy JUndefined = False"
| "truthy JNull = False"
| "truthy (JBool b) = b"
| "truthy (JNum n) = (n \<noteq> 0)"
| "truthy (JStr s) = (s \<noteq> [])"
| "truthy (JArr xs) = True"
| "truthy (JObj kvs) = True"

text \<open>
  The user identifier is a string: it is the key of the \<^verbatim>\<open>sessions\<close> object, the
  \<^verbatim>\<open>clientId\<close> of the auth strategy and a segment of the auth path. The empty
  string is its falsy value, which the handlers treat like a missing field. The
  \<^verbatim>\<open>sessions\<close> object is read as a dictionary: the names that every JavaScript
  object inherits (\<^verbatim>\<open>constructor\<close>, \<^verbatim>\<open>toString\<close>, \<dots>) are not taken for
  user identifiers.
\<close>

definition truthy_str :: "string \<Rightarrow> bool" where
  "truthy_str s = (s \<noteq> [])"

section \<open>Errors and responses\<close>

datatype js_error = TypeError string | Error string

fun err_message :: "js_error \<Rightarrow> string" where
  "err_message (TypeError m) = m"
| "err_message (Error m) = m"

datatype payload = ErrorBody string | StatusBody string | QrBody string

text \<open>\<open>Response code body\<close>; \<^verbatim>\<open>res.send\<close> without \<^verbatim>\<open>res.status\<close> answers 200.\<close>

datatype response = Response nat payload

section \<open>Sessions, the registry and the outside world\<close>

text \<open>
  A backend client is named by the number of the \<^verbatim>\<open>createClient\<close> call that
  constructed it. The idle timer armed by that call carries the same number as its handle.
\<close>

record session =
  client :: nat
  ready :: bool
  lastQR :: "string option"
  initializing :: bool
  timeout :: "nat option"

datatype media = MessageMedia json json json

datatype content = Text json | Media media

text \<open>
  What the server does to its collaborators, in the order it does it: constructing,
  initializing and destroying backend clients, removing an auth directory, and the
  \<^verbatim>\<open>client.sendMessage(chatId, content, options)\<close> calls with the caption option.
  The backend client and the auth strategy are libraries: their constructors,
  \<^verbatim>\<open>initialize\<close> and \<^verbatim>\<open>destroy\<close> are taken to return normally.
\<close>

datatype effect =
    NewClient nat string
  | Initialize nat
  | Destroy nat
  | RmDir string
  | SendMessage nat string content "json option"

text \<open>
  The state of the process and of what it touches: the \<^verbatim>\<open>sessions\<close> object; for
  each client constructed so far the user identifier that its handlers are closed over;
  the idle timers that are armed; the number of the next client; the user identifiers
  whose auth directory exists on disk; and the effects so far.
\<close>

record world =
  sessions :: "string \<rightharpoonup> session"
  owner :: "nat \<rightharpoonup> string"
  timers :: "nat set"
  nextClient :: nat
  authDirs :: "string set"
  effects :: "effect list"

definition init_world :: "string set \<Rightarrow> world" where
  "init_world dirs =
     \<lparr>sessions = Map.empty, owner = Map.empty, timers = {}, nextClient = 0,
      authDirs = dirs, effects = []\<rparr>"

text \<open>
  \<^verbatim>\<open>createClient(userId)\<close>, lines 15-86: a new client, a new registry entry that
  overwrites whatever the key held, the 2-minute idle timer, the event handlers (the
  functions \<open>on_\<dots>\<close> below, closed over \<open>userId\<close> and the client) and
  \<^verbatim>\<open>client.initialize()\<close>.
\<close>

definition createClient :: "string \<Rightarrow> world \<Rightarrow> world" where
  "createClient userId w =
     (let c = nextClient w in
      w\<lparr>sessions := (sessions w)(userId \<mapsto>
           \<lparr>client = c, ready = False, lastQR = None, initializing = True,
            timeout = Some c\<rparr>),
        owner := (owner w)(c \<mapsto> userId),
        timers := insert c (timers w),
        nextClient := Suc c,
        effects := effects w @ [NewClient c userId, Initialize c]\<rparr>)"

definition undefined_session :: js_error where
  "undefined_session = TypeError ''Cannot read properties of undefined''"

text \<open>The idle timer's callback, lines 28-34.\<close>

definition idle_timeout :: "string \<Rightarrow> nat \<Rightarrow> world \<Rightarrow> js_error + world" where
  "idle_timeout userId c w =
     (case sessions w userId of
        None \<Rightarrow> Inl undefined_session
      | Some s \<Rightarrow>
          if \<not> ready s
          then Inr (w\<lparr>effects := effects w @ [Destroy c],
                      sessions := (sessions w)(userId := None)\<rparr>)
          else Inr w)"

text \<open>\<^verbatim>\<open>client.on('qr')\<close>, lines 35-39.\<close>

definition on_qr :: "string \<Rightarrow> string \<Rightarrow> world \<Rightarrow> js_error + world" where
  "on_qr userId qr w =
     (case sessions w userId of
        None \<Rightarrow> Inl undefined_session
      | Some s \<Rightarrow>
          Inr (w\<lparr>sessions := (sessions w)(userId \<mapsto> s\<lparr>lastQR := Some qr, ready := False\<rparr>)\<rparr>))"

text \<open>\<^verbatim>\<open>client.on('ready')\<close>, lines 41-51.\<close>

definition on_ready :: "string \<Rightarrow> world \<Rightarrow> js_error + world" where
  "on_ready userId w =
     (case sessions w userId of
        None \<Rightarrow> Inl undefined_session
      | Some s \<Rightarrow>
          (let s1 = s\<lparr>ready := True, lastQR := None, initializing := False\<rparr> in
           case timeout s1 of
             None \<Rightarrow> Inr (w\<lparr>sessions := (sessions w)(userId \<mapsto> s1)\<rparr>)
           | Some t \<Rightarrow>
               Inr (w\<lparr>sessions := (sessions w)(userId \<mapsto> s1\<lparr>timeout := None\<rparr>),
                      timers := timers w - {t}\<rparr>)))"

text \<open>\<^verbatim>\<open>client.on('authenticated')\<close>, lines 53-55: it only logs.\<close>

definition on_authenticated :: "string \<Rightarrow> world \<Rightarrow> js_error + world" where
  "on_authenticated userId w = Inr w"

text \<open>\<^verbatim>\<open>client.on('auth_failure')\<close>, lines 57-60.\<close>

definition on_auth_failure :: "string \<Rightarrow> string \<Rightarrow> world \<Rightarrow> js_error + world" where
  "on_auth_failure userId msg w =
     (case sessions w userId of
        None \<Rightarrow> Inl undefined_session
      | Some s \<Rightarrow> Inr (w\<lparr>sessions := (sessions w)(userId \<mapsto> s\<lparr>ready := False\<rparr>)\<rparr>))"

text \<open>
  \<^verbatim>\<open>sessionExists(userId)\<close>, lines 89-92: whether the directory
  \<^verbatim>\<open>.wwebjs_auth/<userId>\<close> exists. \<open>authDirs\<close> holds the user identifiers whose
  directory exists.
\<close>

definition sessionExists :: "string \<Rightarrow> world \<Rightarrow> bool" where
  "sessionExists userId w = (userId \<in> authDirs w)"

definition authPath :: "string \<Rightarrow> string" where
  "authPath userId = ''.wwebjs_auth/'' @ userId"

text \<open>\<^verbatim>\<open>client.on('disconnected')\<close>, lines 62-83.\<close>

definition on_disconnected :: "string \<Rightarrow> nat \<Rightarrow> string \<Rightarrow> world \<Rightarrow> js_error + world" where
  "on_disconnected userId c reason w =
     (case sessions w userId of
        None \<Rightarrow> Inl undefined_session
      | Some s \<Rightarrow>
          (let w1 = w\<lparr>sessions := (sessions w)(userId \<mapsto> s\<lparr>ready := False, initializing := False\<rparr>)\<rparr>;
               w2 = w1\<lparr>effects := effects w1 @ [Destroy c]\<rparr>;
               w3 = (if userId \<in> authDirs w2
                     then w2\<lparr>authDirs := authDirs w2 - {userId},
                             effects := effects w2 @ [RmDir (authPath userId)]\<rparr>
                     else w2);
               w4 = w3\<lparr>sessions := (sessions w3)(userId := None)\<rparr>
           in Inr (createClient userId w4)))"

section \<open>Creating a session on demand\<close>

text \<open>Lines 99-102 of \<^verbatim>\<open>POST /start-session\<close>.\<close>

definition start_session_ensure :: "string \<Rightarrow> world \<Rightarrow> world" where
  "start_session_ensure userId w =
     (if sessions w userId = None then createClient userId w else w)"

text \<open>
  The first lines of \<^verbatim>\<open>ensureClientReady\<close> (154-163, and the same lines in the
  three other send handlers): both branches of the inner test create the client.
\<close>

definition ensure_session :: "string \<Rightarrow> world \<Rightarrow> world" where
  "ensure_session userId w =
     (if sessions w userId = None
      then (if sessionExists userId w then createClient userId w
            else createClient userId w)
      else w)"

text \<open>\<^verbatim>\<open>GET /check-login/:userId\<close>, lines 124-142.\<close>

definition check_login :: "string \<Rightarrow> world \<Rightarrow> response \<times> world" where
  "check_login userId w =
     (case sessions w userId of
        None \<Rightarrow>
          if sessionExists userId w
          then (Response 200 (StatusBody ''pending''), createClient userId w)
          else (Response 200 (StatusBody ''not_started''), w)
      | Some s \<Rightarrow>
          if ready s then (Response 200 (StatusBody ''ready''), w)
          else (Response 200 (StatusBody ''pending''), w))"

section \<open>The event loop\<close>

text \<open>
  One callback runs at a time. An event of the backend names the client that emits it; the
  handler that runs is the one \<open>createClient\<close> registered on that client, closed over
  the user identifier the client was created for. An idle timer fires at most once, and
  not at all once \<^verbatim>\<open>clearTimeout\<close> has removed it. While one request waits,
  another request may arrive: \<open>EnsureSession u\<close> is the synchronous start of a
  start-session or send request for \<open>u\<close> (which passed the required-field check, so
  \<open>u\<close> is not empty), \<open>CheckLogin u\<close> a check-login request. An exception that escapes
  a callback of the backend or of a timer is not caught anywhere in \<^verbatim>\<open>server.js\<close>:
  the run stops with it.
\<close>

datatype event =
    Qr nat string
  | Ready nat
  | Authenticated nat
  | AuthFailure nat string
  | Disconnected nat string
  | IdleTimer nat
  | EnsureSession string
  | CheckLogin string

fun step :: "event \<Rightarrow> world \<Rightarrow> js_error + world" where
  "step (Qr c qr) w =
     (case owner w c of None \<Rightarrow> Inr w | Some u \<Rightarrow> on_qr u qr w)"
| "step (Ready c) w =
     (case owner w c of None \<Rightarrow> Inr w | Some u \<Rightarrow> on_ready u w)"
| "step (Authenticated c) w =
     (case owner w c of None \<Rightarrow> Inr w | Some u \<Rightarrow> on_authenticated u w)"
| "step (AuthFailure c msg) w =
     (case owner w c of None \<Rightarrow> Inr w | Some u \<Rightarrow> on_auth_failure u msg w)"
| "step (Disconnected c reason) w =
     (case owner w c of None \<Rightarrow> Inr w | Some u \<Rightarrow> on_disconnected u c reason w)"
| "step (IdleTimer c) w =
     (case owner w c of
        None \<Rightarrow> Inr w
      | Some u \<Rightarrow>
          if c \<in> timers w then idle_timeout u c (w\<lparr>timers := timers w - {c}\<rparr>)
          else Inr w)"
| "step (EnsureSession u) w = Inr (if truthy_str u then ensure_session u w else w)"
| "step (CheckLogin u) w = Inr (snd (check_login u w))"

fun run_events :: "event list \<Rightarrow> world \<Rightarrow> js_error + world" where
  "run_events [] w = Inr w"
| "run_events (e # es) w =
     (case step e w of Inl err \<Rightarrow> Inl err | Inr w' \<Rightarrow> run_events es w')"

section \<open>Status handlers\<close>

text \<open>
  \<^verbatim>\<open>POST /start-session\<close>, lines 95-121. The handler first makes sure that the
  registry has an entry (\<open>start_session_ensure\<close>), then sets a timer of 2000 ms;
  \<open>grace\<close> is what the event loop runs meanwhile. The timer's callback (lines 105-120)
  is \<open>start_session_reply\<close>; \<open>toDataURL\<close> stands for \<^verbatim>\<open>qrcode.toDataURL\<close>,
  \<open>None\<close> when it reports an error. The callback runs outside the handler's promise, so
  what it throws is uncaught and the request gets no response.
\<close>

definition start_session_reply ::
  "(string \<Rightarrow> string option) \<Rightarrow> string \<Rightarrow> world \<Rightarrow> js_error + response" where
  "start_session_reply toDataURL userId w =
     (case sessions w userId of
        None \<Rightarrow> Inl undefined_session
      | Some s \<Rightarrow>
          if ready s then Inr (Response 200 (StatusBody ''ready''))
          else (case lastQR s of
                  None \<Rightarrow> Inr (Response 200 (StatusBody ''pending''))
                | Some qr \<Rightarrow>
                    if qr \<noteq> []
                    then (case toDataURL qr of
                            None \<Rightarrow> Inr (Response 500 (ErrorBody ''QR generation failed''))
                          | Some url \<Rightarrow> Inr (Response 200 (QrBody url)))
                    else Inr (Response 200 (StatusBody ''pending''))))"

definition start_session ::
  "(string \<Rightarrow> string option) \<Rightarrow> event list \<Rightarrow> string \<Rightarrow> world
     \<Rightarrow> js_error + (response \<times> world)" where
  "start_session toDataURL grace userId w =
     (if \<not> truthy_str userId then Inr (Response 400 (ErrorBody ''UserId required''), w)
      else (case run_events grace (start_session_ensure userId w) of
              Inl err \<Rightarrow> Inl err
            | Inr w2 \<Rightarrow>
                (case start_session_reply toDataURL userId w2 of
                   Inl err \<Rightarrow> Inl err
                 | Inr r \<Rightarrow> Inr (r, w2))))"

section \<open>The readiness wait of the send handlers\<close>

text \<open>
  \<^verbatim>\<open>ensureClientReady\<close> is written out four times, once in each send handler
  (lines 152-187, 225-260, 305-337, 375-405), each time with the same code. Its promise is
  settled by one of two callbacks: the interval's, every 1000 ms, and the timeout's, after
  15000 ms.
\<close>

definition pollInterval :: nat where
  "pollInterval = 1000"

definition maxWait :: nat where
  "maxWait = 15000"

definition timeout_error :: js_error where
  "timeout_error = Error ''Timeout: Client not ready after waiting.''"

text \<open>
  The interval's callback, lines 174-180: \<open>Some c\<close> when it clears the interval and
  resolves the promise with the client \<open>c\<close>, \<open>None\<close> when it leaves the promise pending.
\<close>

definition gate_tick :: "string \<Rightarrow> world \<Rightarrow> nat option" where
  "gate_tick userId w =
     (case sessions w userId of
        None \<Rightarrow> None
      | Some s \<Rightarrow> if ready s then Some (client s) else None)"

text \<open>
  \<open>poll n k sched userId w\<close>: the next \<open>n\<close> runs of the interval's callback, the first
  of them being the \<open>k\<close>-th since the wait began. \<open>sched k\<close> is what the event loop runs
  after the \<open>(k-1)\<close>-th run of the callback and before the \<open>k\<close>-th.
\<close>

fun poll ::
  "nat \<Rightarrow> nat \<Rightarrow> (nat \<Rightarrow> event list) \<Rightarrow> string \<Rightarrow> world \<Rightarrow> js_error + (nat option \<times> world)" where
  "poll 0 k sched userId w = Inr (None, w)"
| "poll (Suc n) k sched userId w =
     (case run_events (sched k) w of
        Inl err \<Rightarrow> Inl err
      | Inr w' \<Rightarrow>
          (case gate_tick userId w' of
             Some c \<Rightarrow> Inr (Some c, w')
           | None \<Rightarrow> poll n (Suc k) sched userId w'))"

text \<open>
  The interval's callback runs at 1000, 2000, \<dots>, 14000 ms before the timeout's callback
  runs at 15000 ms. Both are due at 15000 ms, and which of the two the runtime runs first
  is not fixed by the program: \<open>tie\<close> says that the interval's callback is first.
\<close>

definition polls_before_timeout :: "bool \<Rightarrow> nat" where
  "polls_before_timeout tie =
     (if tie then maxWait div pollInterval else (maxWait - 1) div pollInterval)"

datatype settled = Resolved nat | Rejected js_error

text \<open>The promise of lines 173-186.\<close>

definition awaitReady ::
  "bool \<Rightarrow> (nat \<Rightarrow> event list) \<Rightarrow> string \<Rightarrow> world \<Rightarrow> js_error + (settled \<times> world)" where
  "awaitReady tie sched userId w =
     (case poll (polls_before_timeout tie) 1 sched userId w of
        Inl err \<Rightarrow> Inl err
      | Inr (Some c, w') \<Rightarrow> Inr (Resolved c, w')
      | Inr (None, w') \<Rightarrow>
          (case run_events (sched (Suc (polls_before_timeout tie))) w' of
             Inl err \<Rightarrow> Inl err
           | Inr w'' \<Rightarrow> Inr (Rejected timeout_error, w'')))"

text \<open>
  \<^verbatim>\<open>ensureClientReady\<close>, lines 152-187. \<open>Inl\<close> is an exception that escaped a
  callback of the event loop during the wait; what the function itself throws or rejects
  with is \<open>Rejected\<close>, which the handler's \<^verbatim>\<open>catch\<close> receives.
\<close>

definition ensureClientReady ::
  "bool \<Rightarrow> (nat \<Rightarrow> event list) \<Rightarrow> string \<Rightarrow> world \<Rightarrow> js_error + (settled \<times> world)" where
  "ensureClientReady tie sched userId w =
     (let w1 = ensure_session userId w
      in case sessions w1 userId of
           None \<Rightarrow> Inr (Rejected undefined_session, w1)
         | Some s \<Rightarrow>
             if ready s then Inr (Resolved (client s), w1)
             else awaitReady tie sched userId w1)"

section \<open>Send handlers\<close>

text \<open>
  \<^verbatim>\<open>number.replace(/\D/g, '')\<close> keeps the characters \<^verbatim>\<open>0\<close> to \<^verbatim>\<open>9\<close>.
  On a value that is not a string the call throws, since only strings have the method.
\<close>

definition is_digit :: "char \<Rightarrow> bool" where
  "is_digit ch = (ch \<in> set ''0123456789'')"

definition cleanNumber :: "string \<Rightarrow> string" where
  "cleanNumber s = filter is_digit s"

definition chatId :: "string \<Rightarrow> string" where
  "chatId s = cleanNumber s @ ''@c.us''"

definition not_a_string :: js_error where
  "not_a_string = TypeError ''number.replace is not a function''"

text \<open>
  The backend's answer to \<^verbatim>\<open>client.sendMessage(chatId, content, options)\<close>:
  \<open>None\<close> when the call resolves, \<open>Some m\<close> when it rejects with an error of message
  \<open>m\<close>. \<open>send_call\<close> makes the call and records it.
\<close>

type_synonym backend = "nat \<Rightarrow> string \<Rightarrow> content \<Rightarrow> json option \<Rightarrow> string option"

definition send_call ::
  "backend \<Rightarrow> nat \<Rightarrow> string \<Rightarrow> content \<Rightarrow> json option \<Rightarrow> world \<Rightarrow> string option \<times> world" where
  "send_call be c chat x opt w =
     (be c chat x opt, w\<lparr>effects := effects w @ [SendMessage c chat x opt]\<rparr>)"

text \<open>
  The body of the \<^verbatim>\<open>try\<close> after the wait, lines 192-208, with the
  \<^verbatim>\<open>catch\<close> of lines 210-213. A client handle is an object and so never falsy:
  the test of line 192 never throws. From here on the handler holds the client in a local
  variable and reads the registry no more, so what other callbacks do while it awaits the
  backend does not change what it does: the model runs the rest of a send handler in one
  piece.
\<close>

definition send_message_deliver ::
  "backend \<Rightarrow> nat \<Rightarrow> json \<Rightarrow> json \<Rightarrow> world \<Rightarrow> response \<times> world" where
  "send_message_deliver be c number message w =
     (case number of
        JStr s \<Rightarrow>
          if length (cleanNumber s) < 10
          then (Response 400 (ErrorBody ''Invalid phone number''), w)
          else (case send_call be c (chatId s) (Text message) None w of
                  (None, w1) \<Rightarrow> (Response 200 (StatusBody ''Message sent''), w1)
                | (Some m, w1) \<Rightarrow> (Response 500 (ErrorBody m), w1))
      | _ \<Rightarrow> (Response 500 (ErrorBody (err_message not_a_string)), w))"

text \<open>\<^verbatim>\<open>POST /send-message\<close>, lines 145-214.\<close>

definition send_message ::
  "bool \<Rightarrow> (nat \<Rightarrow> event list) \<Rightarrow> backend \<Rightarrow> string \<Rightarrow> json \<Rightarrow> json \<Rightarrow> world
     \<Rightarrow> js_error + (response \<times> world)" where
  "send_message tie sched be userId number message w =
     (if \<not> truthy_str userId \<or> \<not> truthy number \<or> \<not> truthy message
      then Inr (Response 400 (ErrorBody ''userId, number, and message are required''), w)
      else (case ensureClientReady tie sched userId w of
              Inl err \<Rightarrow> Inl err
            | Inr (Resolved c, w1) \<Rightarrow> Inr (send_message_deliver be c number message w1)
            | Inr (Rejected err, w1) \<Rightarrow> Inr (Response 500 (ErrorBody (err_message err)), w1)))"

text \<open>
  \<^verbatim>\<open>POST /send-pdf-url\<close>, lines 218-297. \<open>fetch\<close> stands for the download of
  line 279 followed by the base64 encoding of line 281: \<open>Inr\<close> the encoded bytes, \<open>Inl\<close>
  the message of the error thrown.
\<close>

definition send_pdf_url_deliver ::
  "(json \<Rightarrow> string + string) \<Rightarrow> backend \<Rightarrow> nat \<Rightarrow> json \<Rightarrow> json \<Rightarrow> json \<Rightarrow> world
     \<Rightarrow> response \<times> world" where
  "send_pdf_url_deliver fetch be c number message pdfUrl w =
     (case number of
        JStr s \<Rightarrow>
          if length (cleanNumber s) < 10
          then (Response 400 (ErrorBody ''Invalid phone number''), w)
          else (case fetch pdfUrl of
                  Inl m \<Rightarrow> (Response 500 (ErrorBody m), w)
                | Inr pdfBase64 \<Rightarrow>
                    (let media = MessageMedia (JStr ''application/pdf'') (JStr pdfBase64)
                                   (JStr ''document.pdf'')
                     in case send_call be c (chatId s) (Text message) None w of
                          (Some m, w1) \<Rightarrow> (Response 500 (ErrorBody m), w1)
                        | (None, w1) \<Rightarrow>
                            (case send_call be c (chatId s) (Media media) None w1 of
                               (Some m, w2) \<Rightarrow> (Response 500 (ErrorBody m), w2)
                             | (None, w2) \<Rightarrow>
                                 (Response 200 (StatusBody ''Message and PDF sent from URL''), w2))))
      | _ \<Rightarrow> (Response 500 (ErrorBody (err_message not_a_string)), w))"

definition send_pdf_url ::
  "bool \<Rightarrow> (nat \<Rightarrow> event list) \<Rightarrow> (json \<Rightarrow> string + string) \<Rightarrow> backend
     \<Rightarrow> string \<Rightarrow> json \<Rightarrow> json \<Rightarrow> json \<Rightarrow> world \<Rightarrow> js_error + (response \<times> world)" where
  "send_pdf_url tie sched fetch be userId number message pdfUrl w =
     (if \<not> truthy_str userId \<or> \<not> truthy number \<or> \<not> truthy message \<or> \<not> truthy pdfUrl
      then Inr (Response 400 (ErrorBody ''userId, number, message, and pdfUrl are required''), w)
      else (case ensureClientReady tie sched userId w of
              Inl err \<Rightarrow> Inl err
            | Inr (Resolved c, w1) \<Rightarrow>
                Inr (send_pdf_url_deliver fetch be c number message pdfUrl w1)
            | Inr (Rejected err, w1) \<Rightarrow> Inr (Response 500 (ErrorBody (err_message err)), w1)))"

text \<open>\<^verbatim>\<open>filename || fallback\<close>.\<close>

definition or_default :: "json \<Rightarrow> string \<Rightarrow> json" where
  "or_default filename fallback = (if truthy filename then filename else JStr fallback)"

text \<open>\<^verbatim>\<open>POST /send-pdf-base64\<close>, lines 298-367.\<close>

definition send_pdf_base64_deliver ::
  "backend \<Rightarrow> nat \<Rightarrow> json \<Rightarrow> json \<Rightarrow> json \<Rightarrow> json \<Rightarrow> world \<Rightarrow> response \<times> world" where
  "send_pdf_base64_deliver be c number message pdfBase64 filename w =
     (case number of
        JStr s \<Rightarrow>
          if length (cleanNumber s) < 10
          then (Response 400 (ErrorBody ''Invalid phone number''), w)
          else (let media = MessageMedia (JStr ''application/pdf'') pdfBase64
                              (or_default filename ''document.pdf'')
                in case send_call be c (chatId s) (Media media) (Some message) w of
                     (Some m, w1) \<Rightarrow> (Response 500 (ErrorBody m), w1)
                   | (None, w1) \<Rightarrow>
                       (Response 200 (StatusBody ''Message and PDF (base64) sent''), w1))
      | _ \<Rightarrow> (Response 500 (ErrorBody (err_message not_a_string)), w))"

definition send_pdf_base64 ::
  "bool \<Rightarrow> (nat \<Rightarrow> event list) \<Rightarrow> backend \<Rightarrow> string \<Rightarrow> json \<Rightarrow> json \<Rightarrow> json \<Rightarrow> json \<Rightarrow> world
     \<Rightarrow> js_error + (response \<times> world)" where
  "send_pdf_base64 tie sched be userId number message pdfBase64 filename w =
     (if \<not> truthy_str userId \<or> \<not> truthy number \<or> \<not> truthy message \<or> \<not> truthy pdfBase64
      then Inr (Response 400 (ErrorBody ''userId, number, message, and pdfBase64 are required''), w)
      else (case ensureClientReady tie sched userId w of
              Inl err \<Rightarrow> Inl err
            | Inr (Resolved c, w1) \<Rightarrow>
                Inr (send_pdf_base64_deliver be c number message pdfBase64 filename w1)
            | Inr (Rejected err, w1) \<Rightarrow> Inr (Response 500 (ErrorBody (err_message err)), w1)))"

text \<open>\<^verbatim>\<open>POST /send-image-base64\<close>, lines 368-430.\<close>

definition send_image_base64_deliver ::
  "backend \<Rightarrow> nat \<Rightarrow> json \<Rightarrow> json \<Rightarrow> json \<Rightarrow> json \<Rightarrow> json \<Rightarrow> world \<Rightarrow> response \<times> world" where
  "send_image_base64_deliver be c number message imageBase64 filename mimeType w =
     (case number of
        JStr s \<Rightarrow>
          if length (cleanNumber s) < 10
          then (Response 400 (ErrorBody ''Invalid phone number''), w)
          else (let media = MessageMedia mimeType imageBase64 (or_default filename ''image.jpg'')
                in case send_call be c (chatId s) (Media media) (Some message) w of
                     (Some m, w1) \<Rightarrow> (Response 500 (ErrorBody m), w1)
                   | (None, w1) \<Rightarrow>
                       (Response 200 (StatusBody ''Image (base64) and message sent''), w1))
      | _ \<Rightarrow> (Response 500 (ErrorBody (err_message not_a_string)), w))"

definition send_image_base64 ::
  "bool \<Rightarrow> (nat \<Rightarrow> event list) \<Rightarrow> backend \<Rightarrow> string \<Rightarrow> json \<Rightarrow> json \<Rightarrow> json \<Rightarrow> json \<Rightarrow> json
     \<Rightarrow> world \<Rightarrow> js_error + (response \<times> world)" where
  "send_image_base64 tie sched be userId number message imageBase64 filename mimeType w =
     (if \<not> truthy_str userId \<or> \<not> truthy number \<or> \<not> truthy message \<or> \<not> truthy imageBase64
         \<or> \<not> truthy mimeType
      then Inr (Response 400
             (ErrorBody ''userId, number, message, imageBase64, and mimeType are required''), w)
      else (case ensureClientReady tie sched userId w of
              Inl err \<Rightarrow> Inl err
            | Inr (Resolved c, w1) \<Rightarrow>
                Inr (send_image_base64_deliver be c number message imageBase64 filename mimeType w1)
            | Inr (Rejected err, w1) \<Rightarrow> Inr (Response 500 (ErrorBody (err_message err)), w1)))"

section \<open>Observing a run\<close>

text \<open>The \<^verbatim>\<open>sendMessage\<close> calls made so far, oldest first.\<close>

fun is_send :: "effect \<Rightarrow> bool" where
  "is_send (SendMessage c chat x opt) = True"
| "is_send _ = False"

definition sends :: "world \<Rightarrow> effect list" where
  "sends w = filter is_send (effects w)"

text \<open>
  \<open>world_at sched k w\<close>: the world that the \<open>k\<close>-th run of the interval's callback
  reads, when the wait began in \<open>w\<close>.
\<close>

fun world_at :: "(nat \<Rightarrow> event list) \<Rightarrow> nat \<Rightarrow> world \<Rightarrow> js_error + world" where
  "world_at sched 0 w = Inr w"
| "world_at sched (Suc k) w =
     (case world_at sched k w of
        Inl err \<Rightarrow> Inl err
      | Inr w' \<Rightarrow> run_events (sched (Suc k)) w')"

text \<open>\<open>seen_ready sched userId w k\<close>: the \<open>k\<close>-th run of the callback finds the session ready.\<close>

definition seen_ready :: "(nat \<Rightarrow> event list) \<Rightarrow> string \<Rightarrow> world \<Rightarrow> nat \<Rightarrow> bool" where
  "seen_ready sched userId w k =
     (case world_at sched k w of
        Inl err \<Rightarrow> False
      | Inr wk \<Rightarrow> gate_tick userId wk \<noteq> None)"

text \<open>
  A schedule from events stamped with the milliseconds elapsed since the wait began, in
  the order in which they happen: an event at time \<open>t\<close> runs before the \<open>k\<close>-th run of
  the interval's callback and after the one before it when
  \<open>(k - 1) * 1000 < t \<le> k * 1000\<close> (an event at time \<open>0\<close> runs before the first).
\<close>

definition sched_of :: "(nat \<times> event) list \<Rightarrow> nat \<Rightarrow> event list" where
  "sched_of timed k =
     map snd (filter (\<lambda>te. fst te \<le> k * pollInterval \<and>
                           (k \<le> 1 \<or> (k - 1) * pollInterval < fst te)) timed)"

definition no_events :: "nat \<Rightarrow> event list" where
  "no_events k = []"

definition accepting :: backend where
  "accepting c chat x opt = None"

definition fetch_ok :: "json \<Rightarrow> string + string" where
  "fetch_ok url = Inr ''JVBERi0xLjQK''"

definition data_url :: "string \<Rightarrow> string option" where
  "data_url qr = Some (''data:image/png;base64,'' @ qr)"

definition reply :: "js_error + (response \<times> world) \<Rightarrow> response option" where
  "reply r = (case r of Inl err \<Rightarrow> None | Inr (resp, w) \<Rightarrow> Some resp)"

text \<open>What a wait ended with, and the registry entry that the \<open>k\<close>-th read finds.\<close>

definition outcome :: "js_error + (settled \<times> world) \<Rightarrow> settled option" where
  "outcome r = (case r of Inl err \<Rightarrow> None | Inr (x, w) \<Rightarrow> Some x)"

definition entry_at :: "(nat \<Rightarrow> event list) \<Rightarrow> string \<Rightarrow> world \<Rightarrow> nat \<Rightarrow> session option" where
  "entry_at sched userId w k =
     (case world_at sched k w of Inl err \<Rightarrow> None | Inr wk \<Rightarrow> sessions wk userId)"

text \<open>No ready session of the registry still has a QR code.\<close>

definition qr_cleared :: "world \<Rightarrow> bool" where
  "qr_cleared w = (\<forall>u s. sessions w u = Some s \<longrightarrow> ready s \<longrightarrow> lastQR s = None)"

text \<open>
  Clients are numbered in the order of their construction: every client that has an owner,
  and every client that a session holds, was constructed before the next one will be.
\<close>

definition fresh_ids :: "world \<Rightarrow> bool" where
  "fresh_ids w =
     ((\<forall>c u. owner w c = Some u \<longrightarrow> c < nextClient w) \<and>
      (\<forall>u s. sessions w u = Some s \<longrightarrow> client s < nextClient w))"

text \<open>The worlds that the server can be in: it starts with an empty registry.\<close>

inductive reachable :: "world \<Rightarrow> bool" where
  boot: "reachable (init_world dirs)"
| event: "reachable w \<Longrightarrow> step e w = Inr w' \<Longrightarrow> reachable w'"
| start_session:
    "reachable w \<Longrightarrow> start_session toDataURL grace userId w = Inr (r, w') \<Longrightarrow> reachable w'"
| send_message:
    "reachable w \<Longrightarrow> send_message tie sched be userId number message w = Inr (r, w')
       \<Longrightarrow> reachable w'"
| send_pdf_url:
    "reachable w \<Longrightarrow> send_pdf_url tie sched fetch be userId number message pdfUrl w = Inr (r, w')
       \<Longrightarrow> reachable w'"
| send_pdf_base64:
    "reachable w
       \<Longrightarrow> send_pdf_base64 tie sched be userId number message pdfBase64 filename w = Inr (r, w')
       \<Longrightarrow> reachable w'"
| send_image_base64:
    "reachable w
       \<Longrightarrow> send_image_base64 tie sched be userId number message imageBase64 filename mimeType w
           = Inr (r, w')
       \<Longrightarrow> reachable w'"

section \<open>Facts about the model\<close>

subsection \<open>Selectors and the first steps of a request\<close>

lemma createClient_sel [simp]:
  "sessions (createClient u w) = (sessions w)(u \<mapsto>
      \<lparr>client = nextClient w, ready = False, lastQR = None, initializing = True,
       timeout = Some (nextClient w)\<rparr>)"
  "owner (createClient u w) = (owner w)(nextClient w \<mapsto> u)"
  "timers (createClient u w) = insert (nextClient w) (timers w)"
  "nextClient (createClient u w) = Suc (nextClient w)"
  "authDirs (createClient u w) = authDirs w"
  "effects (createClient u w) = effects w @ [NewClient (nextClient w) u, Initialize (nextClient w)]"
  by (simp_all add: createClient_def Let_def)

lemma init_world_sel [simp]:
  "sessions (init_world d) = Map.empty"
  "owner (init_world d) = Map.empty"
  "timers (init_world d) = {}"
  "nextClient (init_world d) = 0"
  "authDirs (init_world d) = d"
  "effects (init_world d) = []"
  by (simp_all add: init_world_def)

lemma ensure_session_present: "sessions w u = Some s \<Longrightarrow> ensure_session u w = w"
  by (simp add: ensure_session_def)

lemma ensure_session_absent: "sessions w u = None \<Longrightarrow> ensure_session u w = createClient u w"
  by (simp add: ensure_session_def)

lemma ensureClientReady_ready:
  "sessions w u = Some s \<Longrightarrow> ready s \<Longrightarrow> ensureClientReady tie sched u w = Inr (Resolved (client s), w)"
  by (simp add: ensureClientReady_def ensure_session_present)

lemma ensureClientReady_waits:
  "sessions w u = Some s \<Longrightarrow> \<not> ready s \<Longrightarrow> ensureClientReady tie sched u w = awaitReady tie sched u w"
  by (simp add: ensureClientReady_def ensure_session_present)

lemma ensureClientReady_creates:
  "sessions w u = None \<Longrightarrow>
     ensureClientReady tie sched u w = awaitReady tie sched u (createClient u w)"
  by (simp add: ensureClientReady_def ensure_session_absent)

lemma send_message_after_wait:
  assumes "truthy_str u" "truthy number" "truthy message"
  shows "send_message tie sched be u number message w =
     (case ensureClientReady tie sched u w of
        Inl err \<Rightarrow> Inl err
      | Inr (Resolved c, w1) \<Rightarrow> Inr (send_message_deliver be c number message w1)
      | Inr (Rejected err, w1) \<Rightarrow> Inr (Response 500 (ErrorBody (err_message err)), w1))"
  using assms by (simp add: send_message_def)

lemma short_deliver:
  "length (cleanNumber s) < 10 \<Longrightarrow>
     send_message_deliver be c (JStr s) message w = (Response 400 (ErrorBody ''Invalid phone number''), w)"
  by (simp add: send_message_deliver_def)

subsection \<open>The reads of the interval callback\<close>

lemma polls_before_timeout_eq: "polls_before_timeout tie = (if tie then 15 else 14)"
  by (simp add: polls_before_timeout_def maxWait_def pollInterval_def)

lemma world_at_earlier:
  "world_at sched (k + m) w = Inr wz \<Longrightarrow> \<exists>wk. world_at sched k w = Inr wk"
  by (induction m arbitrary: wz) (auto split: sum.splits)

lemma poll_pending:
  assumes "world_at sched k w = Inr wk"
      and "\<forall>j. k < j \<and> j \<le> k + n \<longrightarrow> \<not> seen_ready sched u w j"
      and "world_at sched (k + n) w = Inr wz"
  shows "poll n (Suc k) sched u wk = Inr (None, wz)"
  using assms
proof (induction n arbitrary: k wk)
  case 0
  then show ?case by simp
next
  case (Suc n)
  from Suc.prems(3) have "world_at sched (Suc k + n) w = Inr wz" by simp
  from world_at_earlier[OF this] obtain w1 where w1: "world_at sched (Suc k) w = Inr w1" by blast
  with Suc.prems(1) have run: "run_events (sched (Suc k)) wk = Inr w1" by simp
  from Suc.prems(2) have "\<not> seen_ready sched u w (Suc k)" by simp
  with w1 have tick: "gate_tick u w1 = None" by (simp add: seen_ready_def)
  have "poll n (Suc (Suc k)) sched u w1 = Inr (None, wz)"
    using Suc.prems by (intro Suc.IH[OF w1]) auto
  with run tick show ?case by simp
qed

lemma poll_resolved:
  assumes "world_at sched k w = Inr wk"
      and "k < m" and "m \<le> k + n"
      and "\<forall>j. k < j \<and> j < m \<longrightarrow> \<not> seen_ready sched u w j"
      and "world_at sched m w = Inr wm"
      and "gate_tick u wm = Some c"
  shows "poll n (Suc k) sched u wk = Inr (Some c, wm)"
  using assms
proof (induction n arbitrary: k wk)
  case 0
  then show ?case by simp
next
  case (Suc n)
  from \<open>k < m\<close> obtain d where m: "m = Suc k + d" using less_iff_Suc_add by auto
  from Suc.prems(5) world_at_earlier[of sched "Suc k" d w wm] m
  obtain w1 where w1: "world_at sched (Suc k) w = Inr w1" by blast
  with Suc.prems(1) have run: "run_events (sched (Suc k)) wk = Inr w1" by simp
  show ?case
  proof (cases "m = Suc k")
    case True
    with w1 Suc.prems(5,6) run show ?thesis by simp
  next
    case False
    with \<open>k < m\<close> have lt: "Suc k < m" by simp
    with Suc.prems(4) \<open>k < m\<close> have "\<not> seen_ready sched u w (Suc k)" by simp
    with w1 have tick: "gate_tick u w1 = None" by (simp add: seen_ready_def)
    have "poll n (Suc (Suc k)) sched u w1 = Inr (Some c, wm)"
      using Suc.prems lt by (intro Suc.IH[OF w1]) auto
    with run tick show ?thesis by simp
  qed
qed

lemma awaitReady_timeout:
  assumes "\<forall>j. 1 \<le> j \<and> j \<le> polls_before_timeout tie \<longrightarrow> \<not> seen_ready sched u w j"
      and "world_at sched (Suc (polls_before_timeout tie)) w = Inr wz"
  shows "awaitReady tie sched u w = Inr (Rejected timeout_error, wz)"
proof -
  let ?N = "polls_before_timeout tie"
  from assms(2) world_at_earlier[of sched ?N 1 w wz]
  obtain wn where wn: "world_at sched ?N w = Inr wn" by auto
  have "poll ?N (Suc 0) sched u w = Inr (None, wn)"
    using assms(1) wn by (intro poll_pending) auto
  moreover from assms(2) wn have "run_events (sched (Suc ?N)) wn = Inr wz" by simp
  ultimately show ?thesis by (simp add: awaitReady_def)
qed

lemma awaitReady_resolved:
  assumes "1 \<le> m" and "m \<le> polls_before_timeout tie"
      and "\<forall>j. 1 \<le> j \<and> j < m \<longrightarrow> \<not> seen_ready sched u w j"
      and "world_at sched m w = Inr wm"
      and "gate_tick u wm = Some c"
  shows "awaitReady tie sched u w = Inr (Resolved c, wm)"
proof -
  have "poll (polls_before_timeout tie) (Suc 0) sched u w = Inr (Some c, wm)"
    using assms by (intro poll_resolved[where m = m]) auto
  then show ?thesis by (simp add: awaitReady_def)
qed

lemma awaitReady_settles:
  "awaitReady tie sched u w = Inr (Rejected e, w') \<Longrightarrow> e = timeout_error"
  by (auto simp: awaitReady_def split: sum.splits prod.splits option.splits)

subsection \<open>Schedules\<close>

lemma world_at_idle:
  "(\<forall>j. 1 \<le> j \<and> j \<le> k \<longrightarrow> sched j = []) \<Longrightarrow> world_at sched k w = Inr w"
  by (induction k) auto

lemma world_at_Suc_idle:
  "world_at sched k w = Inr w \<Longrightarrow> world_at sched (Suc k) w = run_events (sched (Suc k)) w"
  by simp

lemma world_at_no_events: "world_at no_events k w = Inr w"
  by (intro world_at_idle) (simp add: no_events_def)

lemma world_at_single:
  assumes "\<And>j. sched j = (if j = m then evs else [])"
      and "run_events evs w = Inr w'" and "1 \<le> m"
  shows "world_at sched k w = Inr (if k < m then w else w')"
proof (induction k)
  case 0
  with assms(3) show ?case by simp
next
  case (Suc k)
  show ?case
  proof (cases "Suc k = m")
    case True
    have e: "sched (Suc k) = evs" using assms(1)[of "Suc k"] True by simp
    from Suc True have a: "world_at sched k w = Inr w" by simp
    have "world_at sched (Suc k) w = Inr w'" using a e assms(2) by simp
    moreover have "\<not> Suc k < m" using True by simp
    ultimately show ?thesis by simp
  next
    case False
    have "sched (Suc k) = []" using assms(1)[of "Suc k"] False by simp
    with Suc False show ?thesis by auto
  qed
qed

lemma sched_of_single:
  "sched_of [(t, e)] k =
     (if t \<le> k * 1000 \<and> (k \<le> 1 \<or> (k - 1) * 1000 < t) then [e] else [])"
  by (simp add: sched_of_def pollInterval_def)

lemma fresh_never_seen_ready:
  "sessions w u = None \<Longrightarrow> \<not> seen_ready no_events u (createClient u w) j"
  by (simp add: seen_ready_def world_at_no_events gate_tick_def)

lemma ready_after_create:
  "run_events [Ready (nextClient w)] (createClient u w) =
     Inr ((createClient u w)\<lparr>sessions := (sessions (createClient u w))(u \<mapsto>
            \<lparr>client = nextClient w, ready = True, lastQR = None, initializing = False,
             timeout = None\<rparr>),
          timers := timers (createClient u w) - {nextClient w}\<rparr>)"
  by (simp add: on_ready_def)

lemma ready_at_5s:
  "awaitReady tie (sched_of [(5000, Ready (nextClient w))]) u (createClient u w) =
     Inr (Resolved (nextClient w),
       (createClient u w)\<lparr>sessions := (sessions (createClient u w))(u \<mapsto>
            \<lparr>client = nextClient w, ready = True, lastQR = None, initializing = False,
             timeout = None\<rparr>),
          timers := timers (createClient u w) - {nextClient w}\<rparr>)"
proof -
  let ?w = "createClient u w"
  let ?sched = "sched_of [(5000, Ready (nextClient w))]"
  have tick: "gate_tick u ?w = None" by (simp add: gate_tick_def)
  have sched: "?sched j = (if j = 5 then [Ready (nextClient w)] else [])" for j
    by (auto simp: sched_of_single)
  have before: "world_at ?sched j ?w = Inr ?w" if "j < 5" for j
    using that by (intro world_at_idle) (simp add: sched)
  have "world_at ?sched (Suc 4) ?w = run_events (?sched (Suc 4)) ?w"
    by (intro world_at_Suc_idle before) simp
  then have at5: "world_at ?sched 5 ?w = run_events [Ready (nextClient w)] ?w"
    by (simp add: sched)
  show ?thesis
    by (rule awaitReady_resolved[where m = 5])
       (simp_all del: run_events.simps
          add: polls_before_timeout_eq seen_ready_def before tick at5 ready_after_create
          gate_tick_def)
qed

lemma ready_at_5s_from_boot:
  "\<exists>wm. ensureClientReady tie (sched_of [(5000, Ready 0)]) u (init_world d) = Inr (Resolved 0, wm)
      \<and> sends wm = []"
  using ready_at_5s[of tie "init_world d" u]
  by (simp add: ensureClientReady_creates sends_def)

lemma idle_timer_after_create:
  "run_events [IdleTimer (nextClient w)] (createClient u w) =
     Inr ((createClient u w)\<lparr>timers := timers w - {nextClient w},
        effects := effects (createClient u w) @ [Destroy (nextClient w)],
        sessions := (sessions w)(u := None)\<rparr>)"
  by (simp add: idle_timeout_def)

lemma idle_removed_at_3s:
  fixes w :: world and u :: string
  defines "sched \<equiv> sched_of [(2500, IdleTimer (nextClient w))]"
  defines "gone \<equiv> (createClient u w)\<lparr>timers := timers w - {nextClient w},
        effects := effects (createClient u w) @ [Destroy (nextClient w)],
        sessions := (sessions w)(u := None)\<rparr>"
  shows "world_at sched k (createClient u w) = Inr (if k < 3 then createClient u w else gone)"
proof -
  have "sched j = (if j = 3 then [IdleTimer (nextClient w)] else [])" for j
    by (auto simp: sched_def sched_of_single)
  then show ?thesis
    by (rule world_at_single)
       (simp_all del: run_events.simps add: idle_timer_after_create gone_def)
qed

lemma sample_number:
  "chatId ''+91 98765 43210'' = ''919876543210@c.us''"
  "\<not> length (cleanNumber ''+91 98765 43210'') < 10"
  by (simp_all add: chatId_def cleanNumber_def is_digit_def)

subsection \<open>What every callback and every handler preserves\<close>

lemma run_events_keeps:
  assumes step: "\<And>e v v'. P v \<Longrightarrow> step e v = Inr v' \<Longrightarrow> P v'"
  shows "P w \<Longrightarrow> run_events es w = Inr w' \<Longrightarrow> P w'"
proof (induction es arbitrary: w)
  case Nil
  then show ?case by simp
next
  case (Cons e es)
  then show ?case by (auto split: sum.splits intro: step)
qed

lemma poll_keeps:
  assumes step: "\<And>e v v'. P v \<Longrightarrow> step e v = Inr v' \<Longrightarrow> P v'"
  shows "P w \<Longrightarrow> poll n k sched u w = Inr (x, w') \<Longrightarrow> P w'"
proof (induction n arbitrary: k w)
  case 0
  then show ?case by simp
next
  case (Suc n)
  from Suc.prems(2) obtain w1 where run: "run_events (sched k) w = Inr w1"
    by (auto split: sum.splits)
  have w1: "P w1"
    using run_events_keeps[of P w "sched k" w1] step Suc.prems(1) run by blast
  show ?case
  proof (cases "gate_tick u w1")
    case None
    with Suc.prems(2) run have "poll n (Suc k) sched u w1 = Inr (x, w')" by simp
    with w1 show ?thesis by (rule Suc.IH)
  next
    case (Some c)
    with Suc.prems(2) run w1 show ?thesis by simp
  qed
qed

lemma awaitReady_keeps:
  assumes step: "\<And>e v v'. P v \<Longrightarrow> step e v = Inr v' \<Longrightarrow> P v'"
      and "P w" and "awaitReady tie sched u w = Inr (x, w')"
  shows "P w'"
proof -
  from assms(3) obtain y w1 where p: "poll (polls_before_timeout tie) 1 sched u w = Inr (y, w1)"
    by (auto simp: awaitReady_def split: sum.splits)
  have w1: "P w1"
    using poll_keeps[of P w "polls_before_timeout tie" 1 sched u y w1] step assms(2) p by blast
  show ?thesis
  proof (cases y)
    case None
    with assms(3) p have "run_events (sched (Suc (polls_before_timeout tie))) w1 = Inr w'"
      by (auto simp: awaitReady_def split: sum.splits)
    then show ?thesis
      using run_events_keeps[of P w1 "sched (Suc (polls_before_timeout tie))" w'] step w1 by blast
  next
    case (Some c)
    with assms(3) p w1 show ?thesis by (simp add: awaitReady_def)
  qed
qed

lemma ensureClientReady_keeps:
  assumes step: "\<And>e v v'. P v \<Longrightarrow> step e v = Inr v' \<Longrightarrow> P v'"
      and create: "\<And>u v. P v \<Longrightarrow> P (createClient u v)"
      and "P w" and "ensureClientReady tie sched u w = Inr (x, w')"
  shows "P w'"
proof -
  have w1: "P (ensure_session u w)"
    using assms(3) by (simp add: ensure_session_def create)
  from assms(4) have "w' = ensure_session u w \<or> awaitReady tie sched u (ensure_session u w) = Inr (x, w')"
    by (auto simp: ensureClientReady_def Let_def split: option.splits if_splits)
  then show ?thesis
  proof
    assume "w' = ensure_session u w"
    with w1 show ?thesis by simp
  next
    assume "awaitReady tie sched u (ensure_session u w) = Inr (x, w')"
    then show ?thesis
      using awaitReady_keeps[of P "ensure_session u w" tie sched u x w'] step w1 by blast
  qed
qed

lemma deliver_only_effects:
  "\<exists>xs. snd (send_message_deliver be c number message w) = w\<lparr>effects := xs\<rparr>"
  "\<exists>xs. snd (send_pdf_url_deliver fetch be c number message pdfUrl w) = w\<lparr>effects := xs\<rparr>"
  "\<exists>xs. snd (send_pdf_base64_deliver be c number message pdfBase64 filename w) = w\<lparr>effects := xs\<rparr>"
  "\<exists>xs. snd (send_image_base64_deliver be c number message imageBase64 filename mimeType w)
     = w\<lparr>effects := xs\<rparr>"
proof -
  have same: "\<exists>xs. w = w\<lparr>effects := xs\<rparr>" by (rule exI[of _ "effects w"]) simp
  show "\<exists>xs. snd (send_message_deliver be c number message w) = w\<lparr>effects := xs\<rparr>"
    using same
    by (cases number) (auto simp: send_message_deliver_def send_call_def split: option.splits)
  show "\<exists>xs. snd (send_pdf_url_deliver fetch be c number message pdfUrl w) = w\<lparr>effects := xs\<rparr>"
    using same
    by (cases number)
       (auto simp: send_pdf_url_deliver_def send_call_def Let_def split: option.splits sum.splits)
  show "\<exists>xs. snd (send_pdf_base64_deliver be c number message pdfBase64 filename w) = w\<lparr>effects := xs\<rparr>"
    using same
    by (cases number)
       (auto simp: send_pdf_base64_deliver_def send_call_def Let_def split: option.splits)
  show "\<exists>xs. snd (send_image_base64_deliver be c number message imageBase64 filename mimeType w)
     = w\<lparr>effects := xs\<rparr>"
    using same
    by (cases number)
       (auto simp: send_image_base64_deliver_def send_call_def Let_def split: option.splits)
qed

lemma after_wait_keeps:
  assumes step: "\<And>e v v'. P v \<Longrightarrow> step e v = Inr v' \<Longrightarrow> P v'"
      and create: "\<And>u v. P v \<Longrightarrow> P (createClient u v)"
      and log: "\<And>v xs. P v \<Longrightarrow> P (v\<lparr>effects := xs\<rparr>)"
      and "P w"
      and run: "(case ensureClientReady tie sched u w of
              Inl err \<Rightarrow> Inl err
            | Inr (Resolved c, w1) \<Rightarrow> Inr (deliver c w1)
            | Inr (Rejected err, w1) \<Rightarrow> Inr (Response 500 (ErrorBody (err_message err)), w1))
           = Inr (r, w')"
      and only: "\<And>c w1. \<exists>xs. snd (deliver c w1) = w1\<lparr>effects := xs\<rparr>"
  shows "P w'"
proof -
  from run obtain x w1 where e: "ensureClientReady tie sched u w = Inr (x, w1)"
    by (auto split: sum.splits)
  have w1: "P w1"
    using ensureClientReady_keeps[of P w tie sched u x w1] step create \<open>P w\<close> e by blast
  show ?thesis
  proof (cases x)
    case (Resolved c)
    with run e have "w' = snd (deliver c w1)" by auto
    with only[of c w1] obtain xs where "w' = w1\<lparr>effects := xs\<rparr>" by auto
    with w1 show ?thesis by (simp add: log)
  next
    case (Rejected err)
    with run e w1 show ?thesis by auto
  qed
qed

lemma reachable_keeps:
  assumes boot: "\<And>dirs. P (init_world dirs)"
      and step: "\<And>e v v'. P v \<Longrightarrow> step e v = Inr v' \<Longrightarrow> P v'"
      and create: "\<And>u v. P v \<Longrightarrow> P (createClient u v)"
      and log: "\<And>v xs. P v \<Longrightarrow> P (v\<lparr>effects := xs\<rparr>)"
  shows "reachable w \<Longrightarrow> P w"
proof (induction rule: reachable.induct)
  case (boot dirs)
  show ?case by (rule assms(1))
next
  case (event w e w')
  then show ?case using step by blast
next
  case (start_session w toDataURL grace userId r w')
  from start_session.hyps(2)
  have "w' = w \<or> run_events grace (start_session_ensure userId w) = Inr w'"
    by (auto simp: start_session_def split: if_splits sum.splits)
  moreover have "P (start_session_ensure userId w)"
    using start_session.IH by (simp add: start_session_ensure_def create)
  ultimately show ?case
    using start_session.IH
      run_events_keeps[of P "start_session_ensure userId w" grace w'] step
    by blast
next
  case (send_message w tie sched be userId number message r w')
  show ?case
  proof (cases "\<not> truthy_str userId \<or> \<not> truthy number \<or> \<not> truthy message")
    case True
    with send_message show ?thesis by (auto simp: send_message_def)
  next
    case False
    with send_message.hyps(2) show ?thesis
      by (intro after_wait_keeps[where P = P and w = w and tie = tie and sched = sched
            and u = userId and r = r and w' = w' and deliver =
            "\<lambda>c w1. send_message_deliver be c number message w1"])
         (auto simp: send_message_def deliver_only_effects send_message.IH
            intro: step create log)
  qed
next
  case (send_pdf_url w tie sched fetch be userId number message pdfUrl r w')
  show ?case
  proof (cases "\<not> truthy_str userId \<or> \<not> truthy number \<or> \<not> truthy message \<or> \<not> truthy pdfUrl")
    case True
    with send_pdf_url show ?thesis by (auto simp: send_pdf_url_def)
  next
    case False
    with send_pdf_url.hyps(2) show ?thesis
      by (intro after_wait_keeps[where P = P and w = w and tie = tie and sched = sched
            and u = userId and r = r and w' = w' and deliver =
            "\<lambda>c w1. send_pdf_url_deliver fetch be c number message pdfUrl w1"])
         (auto simp: send_pdf_url_def deliver_only_effects send_pdf_url.IH
            intro: step create log)
  qed
next
  case (send_pdf_base64 w tie sched be userId number message pdfBase64 filename r w')
  show ?case
  proof (cases "\<not> truthy_str userId \<or> \<not> truthy number \<or> \<not> truthy message \<or> \<not> truthy pdfBase64")
    case True
    with send_pdf_base64 show ?thesis by (auto simp: send_pdf_base64_def)
  next
    case False
    with send_pdf_base64.hyps(2) show ?thesis
      by (intro after_wait_keeps[where P = P and w = w and tie = tie and sched = sched
            and u = userId and r = r and w' = w' and deliver =
            "\<lambda>c w1. send_pdf_base64_deliver be c number message pdfBase64 filename w1"])
         (auto simp: send_pdf_base64_def deliver_only_effects send_pdf_base64.IH
            intro: step create log)
  qed
next
  case (send_image_base64 w tie sched be userId number message imageBase64 filename mimeType r w')
  show ?case
  proof (cases "\<not> truthy_str userId \<or> \<not> truthy number \<or> \<not> truthy message
      \<or> \<not> truthy imageBase64 \<or> \<not> truthy mimeType")
    case True
    with send_image_base64 show ?thesis by (auto simp: send_image_base64_def)
  next
    case False
    with send_image_base64.hyps(2) show ?thesis
      by (intro after_wait_keeps[where P = P and w = w and tie = tie and sched = sched
            and u = userId and r = r and w' = w' and deliver =
            "\<lambda>c w1. send_image_base64_deliver be c number message imageBase64 filename
               mimeType w1"])
         (auto simp: send_image_base64_def deliver_only_effects send_image_base64.IH
            intro: step create log)
  qed
qed

lemma reachable_run_events:
  "reachable w \<Longrightarrow> run_events es w = Inr w' \<Longrightarrow> reachable w'"
  using run_events_keeps[of reachable w es w'] reachable.event by blast

subsection \<open>Callbacks never call sendMessage\<close>

lemma sends_createClient [simp]: "sends (createClient u w) = sends w"
  by (simp add: sends_def)

lemma sends_step:
  assumes "sends w = xs" and "step e w = Inr w'"
  shows "sends w' = xs"
proof (cases e)
  case (Qr c qr)
  with assms show ?thesis
    by (auto simp: on_qr_def sends_def split: option.splits)
next
  case (Ready c)
  with assms show ?thesis
    by (auto simp: on_ready_def sends_def Let_def split: option.splits)
next
  case (Authenticated c)
  with assms show ?thesis
    by (auto simp: on_authenticated_def split: option.splits)
next
  case (AuthFailure c msg)
  with assms show ?thesis
    by (auto simp: on_auth_failure_def sends_def split: option.splits)
next
  case (Disconnected c reason)
  with assms show ?thesis
    by (auto simp: on_disconnected_def sends_def Let_def createClient_def split: option.splits)
next
  case (IdleTimer c)
  with assms show ?thesis
    by (auto simp: idle_timeout_def sends_def split: option.splits if_splits)
next
  case (EnsureSession u)
  with assms show ?thesis
    by (auto simp: ensure_session_def)
next
  case (CheckLogin u)
  with assms show ?thesis
    by (auto simp: check_login_def split: option.splits)
qed

lemma sends_ensureClientReady:
  "ensureClientReady tie sched u w = Inr (x, w') \<Longrightarrow> sends w' = sends w"
  by (rule ensureClientReady_keeps[where P = "\<lambda>v. sends v = sends w"])
     (auto intro: sends_step)

lemma sends_after_effects:
  "sends (w\<lparr>effects := effects w @ xs\<rparr>) = sends w @ filter is_send xs"
  by (simp add: sends_def)

lemma pdf_url_deliver_sends:
  assumes "send_pdf_url_deliver fetch be c number message pdfUrl w = (r, w')"
  shows "\<exists>xs. sends w' = sends w @ xs
     \<and> (xs = [] \<or> (\<exists>s pdf. number = JStr s \<and> fetch pdfUrl = Inr pdf
           \<and> (xs = [SendMessage c (chatId s) (Text message) None]
              \<or> xs = [SendMessage c (chatId s) (Text message) None,
                     SendMessage c (chatId s)
                       (Media (MessageMedia (JStr ''application/pdf'') (JStr pdf)
                          (JStr ''document.pdf''))) None])))
     \<and> (\<forall>body. r = Response 200 body \<longrightarrow>
          (\<exists>s pdf. number = JStr s \<and> fetch pdfUrl = Inr pdf
             \<and> xs = [SendMessage c (chatId s) (Text message) None,
                     SendMessage c (chatId s)
                       (Media (MessageMedia (JStr ''application/pdf'') (JStr pdf)
                          (JStr ''document.pdf''))) None]))"
proof (cases number)
  case (JStr s)
  show ?thesis
  proof (cases "length (cleanNumber s) < 10")
    case True
    with JStr assms show ?thesis by (auto simp: send_pdf_url_deliver_def)
  next
    case long: False
    show ?thesis
    proof (cases "fetch pdfUrl")
      case (Inl m)
      with JStr long assms show ?thesis by (auto simp: send_pdf_url_deliver_def)
    next
      case (Inr pdf)
      with JStr long assms show ?thesis
        by (auto simp: send_pdf_url_deliver_def send_call_def sends_def Let_def
            split: option.splits)
    qed
  qed
qed (use assms in \<open>auto simp: send_pdf_url_deliver_def\<close>)

lemma pdf_base64_deliver_sends:
  assumes "send_pdf_base64_deliver be c number message pdfBase64 filename w = (r, w')"
  shows "\<exists>xs. sends w' = sends w @ xs
     \<and> (xs = [] \<or> (\<exists>s. number = JStr s \<and> xs = [SendMessage c (chatId s)
                       (Media (MessageMedia (JStr ''application/pdf'') pdfBase64
                          (or_default filename ''document.pdf''))) (Some message)]))
     \<and> (\<forall>body. r = Response 200 body \<longrightarrow>
          (\<exists>s. number = JStr s
             \<and> xs = [SendMessage c (chatId s)
                       (Media (MessageMedia (JStr ''application/pdf'') pdfBase64
                          (or_default filename ''document.pdf''))) (Some message)]))"
proof (cases number)
  case (JStr s)
  with assms show ?thesis
    by (auto simp: send_pdf_base64_deliver_def send_call_def sends_def Let_def
        split: option.splits if_splits)
qed (use assms in \<open>auto simp: send_pdf_base64_deliver_def\<close>)

lemma image_base64_deliver_sends:
  assumes "send_image_base64_deliver be c number message imageBase64 filename mimeType w = (r, w')"
  shows "\<exists>xs. sends w' = sends w @ xs
     \<and> (xs = [] \<or> (\<exists>s. number = JStr s \<and> xs = [SendMessage c (chatId s)
                       (Media (MessageMedia mimeType imageBase64
                          (or_default filename ''image.jpg''))) (Some message)]))
     \<and> (\<forall>body. r = Response 200 body \<longrightarrow>
          (\<exists>s. number = JStr s
             \<and> xs = [SendMessage c (chatId s)
                       (Media (MessageMedia mimeType imageBase64
                          (or_default filename ''image.jpg''))) (Some message)]))"
proof (cases number)
  case (JStr s)
  with assms show ?thesis
    by (auto simp: send_image_base64_deliver_def send_call_def sends_def Let_def
        split: option.splits if_splits)
qed (use assms in \<open>auto simp: send_image_base64_deliver_def\<close>)

lemma pdf_url_success:
  assumes "ensureClientReady tie sched u w = Inr (Resolved c, w1)"
      and "truthy_str u" and "s \<noteq> []" and "truthy message" and "truthy pdfUrl"
      and "\<not> length (cleanNumber s) < 10" and "fetch pdfUrl = Inr pdf"
  shows "send_pdf_url tie sched fetch accepting u (JStr s) message pdfUrl w =
     Inr (Response 200 (StatusBody ''Message and PDF sent from URL''),
       w1\<lparr>effects := effects w1 @ [SendMessage c (chatId s) (Text message) None,
          SendMessage c (chatId s) (Media (MessageMedia (JStr ''application/pdf'') (JStr pdf)
            (JStr ''document.pdf''))) None]\<rparr>)"
  using assms
  by (simp add: send_pdf_url_def send_pdf_url_deliver_def send_call_def accepting_def)

lemma pdf_base64_success:
  assumes "ensureClientReady tie sched u w = Inr (Resolved c, w1)"
      and "truthy_str u" and "s \<noteq> []" and "truthy message" and "truthy pdfBase64"
      and "\<not> length (cleanNumber s) < 10"
  shows "send_pdf_base64 tie sched accepting u (JStr s) message pdfBase64 filename w =
     Inr (Response 200 (StatusBody ''Message and PDF (base64) sent''),
       w1\<lparr>effects := effects w1 @ [SendMessage c (chatId s)
          (Media (MessageMedia (JStr ''application/pdf'') pdfBase64
            (or_default filename ''document.pdf''))) (Some message)]\<rparr>)"
  using assms
  by (simp add: send_pdf_base64_def send_pdf_base64_deliver_def send_call_def accepting_def)

lemma image_base64_success:
  assumes "ensureClientReady tie sched u w = Inr (Resolved c, w1)"
      and "truthy_str u" and "s \<noteq> []" and "truthy message" and "truthy imageBase64"
      and "truthy mimeType" and "\<not> length (cleanNumber s) < 10"
  shows "send_image_base64 tie sched accepting u (JStr s) message imageBase64 filename mimeType w =
     Inr (Response 200 (StatusBody ''Image (base64) and message sent''),
       w1\<lparr>effects := effects w1 @ [SendMessage c (chatId s)
          (Media (MessageMedia mimeType imageBase64 (or_default filename ''image.jpg'')))
          (Some message)]\<rparr>)"
  using assms
  by (simp add: send_image_base64_def send_image_base64_deliver_def send_call_def accepting_def)

subsection \<open>A ready session has no QR code\<close>

lemma qr_cleared_boot: "qr_cleared (init_world dirs)"
  by (simp add: qr_cleared_def)

lemma qr_cleared_createClient: "qr_cleared w \<Longrightarrow> qr_cleared (createClient u w)"
  by (simp add: qr_cleared_def)

lemma qr_cleared_same_sessions: "sessions w' = sessions w \<Longrightarrow> qr_cleared w \<Longrightarrow> qr_cleared w'"
  by (simp add: qr_cleared_def)

lemma qr_cleared_step:
  assumes "qr_cleared w" and "step e w = Inr w'"
  shows "qr_cleared w'"
proof (cases e)
  case (Qr c qr)
  with assms show ?thesis
    by (auto simp: on_qr_def qr_cleared_def split: option.splits if_splits)
next
  case (Ready c)
  with assms show ?thesis
    by (auto simp: on_ready_def qr_cleared_def Let_def split: option.splits if_splits)
next
  case (Authenticated c)
  with assms show ?thesis
    by (auto simp: on_authenticated_def split: option.splits)
next
  case (AuthFailure c msg)
  with assms show ?thesis
    by (auto simp: on_auth_failure_def qr_cleared_def split: option.splits if_splits)
next
  case (Disconnected c reason)
  with assms show ?thesis
    by (auto simp: on_disconnected_def qr_cleared_def Let_def split: option.splits if_splits)
next
  case (IdleTimer c)
  with assms show ?thesis
    by (auto simp: idle_timeout_def qr_cleared_def split: option.splits if_splits)
next
  case (EnsureSession u)
  with assms show ?thesis
    by (auto simp: ensure_session_def qr_cleared_createClient)
next
  case (CheckLogin u)
  with assms show ?thesis
    by (auto simp: check_login_def qr_cleared_createClient split: option.splits if_splits)
qed

lemma qr_cleared_reachable: "reachable w \<Longrightarrow> qr_cleared w"
  by (rule reachable_keeps[where P = qr_cleared])
     (auto simp: qr_cleared_boot qr_cleared_createClient intro: qr_cleared_step
        qr_cleared_same_sessions)

lemma becomes_ready_without_qr:
  assumes "step e w = Inr w'" and "sessions w' u = Some s'" and "ready s'"
      and "\<forall>s. sessions w u = Some s \<longrightarrow> \<not> ready s"
  shows "lastQR s' = None"
proof (cases e)
  case (Qr c qr)
  with assms show ?thesis
    by (auto simp: on_qr_def split: option.splits if_splits)
next
  case (Ready c)
  with assms show ?thesis
    by (auto simp: on_ready_def Let_def split: option.splits if_splits)
next
  case (Authenticated c)
  with assms show ?thesis
    by (auto simp: on_authenticated_def split: option.splits)
next
  case (AuthFailure c msg)
  with assms show ?thesis
    by (auto simp: on_auth_failure_def split: option.splits if_splits)
next
  case (Disconnected c reason)
  with assms show ?thesis
    by (auto simp: on_disconnected_def Let_def split: option.splits if_splits)
next
  case (IdleTimer c)
  with assms show ?thesis
    by (auto simp: idle_timeout_def split: option.splits if_splits)
next
  case (EnsureSession v)
  with assms show ?thesis
    by (auto simp: ensure_session_def split: if_splits)
next
  case (CheckLogin v)
  with assms show ?thesis
    by (auto simp: check_login_def split: option.splits if_splits)
qed

subsection \<open>Clients are numbered in the order of their construction\<close>

lemma fresh_ids_createClient: "fresh_ids w \<Longrightarrow> fresh_ids (createClient u w)"
  by (auto simp: fresh_ids_def less_Suc_eq split: if_splits)

lemma fresh_ids_step:
  assumes "fresh_ids w" and "step e w = Inr w'"
  shows "fresh_ids w'"
proof (cases e)
  case (Qr c qr)
  with assms show ?thesis
    by (auto simp: on_qr_def fresh_ids_def split: option.splits if_splits)
next
  case (Ready c)
  with assms show ?thesis
    by (auto simp: on_ready_def fresh_ids_def Let_def split: option.splits if_splits)
next
  case (Authenticated c)
  with assms show ?thesis
    by (auto simp: on_authenticated_def split: option.splits)
next
  case (AuthFailure c msg)
  with assms show ?thesis
    by (auto simp: on_auth_failure_def fresh_ids_def split: option.splits if_splits)
next
  case (Disconnected c reason)
  with assms show ?thesis
    by (auto simp: on_disconnected_def fresh_ids_def Let_def less_Suc_eq
        split: option.splits if_splits)
next
  case (IdleTimer c)
  with assms show ?thesis
    by (auto simp: idle_timeout_def fresh_ids_def split: option.splits if_splits)
next
  case (EnsureSession u)
  with assms show ?thesis
    by (auto simp: ensure_session_def fresh_ids_createClient)
next
  case (CheckLogin u)
  with assms show ?thesis
    by (auto simp: check_login_def fresh_ids_createClient split: option.splits if_splits)
qed

lemma fresh_ids_reachable: "reachable w \<Longrightarrow> fresh_ids w"
  by (rule reachable_keeps[where P = fresh_ids])
     (auto simp: fresh_ids_createClient intro: fresh_ids_step, auto simp: fresh_ids_def)

subsection \<open>What a callback does to a registered user\<close>

lemma disconnected_recreates_entry:
  assumes "sessions w userId = Some s" and "owner w c = Some userId"
  shows "\<exists>w2. run_events [Disconnected c reason] w = Inr w2
     \<and> sessions w2 userId = Some \<lparr>client = nextClient w, ready = False, lastQR = None,
          initializing = True, timeout = Some (nextClient w)\<rparr>"
  using assms by (simp add: on_disconnected_def Let_def)

lemma step_keeps_client:
  assumes "step e w = Inr w'" and "sessions w u = Some s"
      and "\<forall>c reason. e \<noteq> Disconnected c reason"
  shows "(sessions w' u = None \<or> (\<exists>s'. sessions w' u = Some s' \<and> client s' = client s))
     \<and> (\<exists>xs. effects w' = effects w @ xs \<and> (\<forall>c. NewClient c u \<notin> set xs))"
proof (cases e)
  case (Qr c qr)
  with assms show ?thesis
    by (auto simp: on_qr_def split: option.splits if_splits)
next
  case (Ready c)
  with assms show ?thesis
    by (auto simp: on_ready_def Let_def split: option.splits if_splits)
next
  case (Authenticated c)
  with assms show ?thesis
    by (auto simp: on_authenticated_def split: option.splits)
next
  case (AuthFailure c msg)
  with assms show ?thesis
    by (auto simp: on_auth_failure_def split: option.splits if_splits)
next
  case (Disconnected c reason)
  with assms show ?thesis by simp
next
  case (IdleTimer c)
  with assms show ?thesis
    by (auto simp: idle_timeout_def split: option.splits if_splits)
next
  case (EnsureSession v)
  with assms show ?thesis
    by (auto simp: ensure_session_def split: if_splits)
next
  case (CheckLogin v)
  with assms show ?thesis
    by (auto simp: check_login_def split: option.splits if_splits)
qed

section \<open>The claims\<close>

text \<open>
  Claim C1 says that a number with fewer than 10 digits is answered with 400 'Invalid phone
  number' whatever the session's state. The handler waits for the session before it looks
  at the number: for a user without a session, whose new session never becomes ready, the
  request with the number \<open>12345\<close> is answered after the wait with 500 and the message
  of the timeout.
\<close>

theorem short_number_times_out:
  "length (cleanNumber ''12345'') < 10
   \<and> reply (send_message False no_events accepting ''u1'' (JStr ''12345'') (JStr ''hello'')
        (init_world {}))
     = Some (Response 500 (ErrorBody ''Timeout: Client not ready after waiting.''))"
proof -
  have "awaitReady False no_events ''u1'' (createClient ''u1'' (init_world {}))
          = Inr (Rejected timeout_error, createClient ''u1'' (init_world {}))"
    by (intro awaitReady_timeout)
       (simp_all del: world_at.simps add: fresh_never_seen_ready world_at_no_events)
  then show ?thesis
    by (simp add: send_message_after_wait truthy_str_def ensureClientReady_creates reply_def
        timeout_error_def cleanNumber_def is_digit_def)
qed

text \<open>
  Claim C1, amended. For a send-message request whose three fields are all truthy and
  whose number is a string that keeps fewer than 10 digits: once the readiness wait has
  produced a client handle (at once when the session is ready, or at one of the reads of
  the interval's callback) the handler answers 400 'Invalid phone number' and calls the
  backend not at all; when the wait is rejected, the handler answers 500 with the message
  of the rejection, which is the timeout's when no read finds the session ready.
\<close>

theorem short_number_rejected_once_ready:
  assumes "truthy_str userId" and "truthy message"
      and "number = JStr s" and "s \<noteq> []" and "length (cleanNumber s) < 10"
  shows "(ensureClientReady tie sched userId w = Inr (Resolved c, w1)
          \<longrightarrow> send_message tie sched be userId number message w
                = Inr (Response 400 (ErrorBody ''Invalid phone number''), w1))
       \<and> (sessions w userId = Some ss \<and> ready ss
          \<longrightarrow> send_message tie sched be userId number message w
                = Inr (Response 400 (ErrorBody ''Invalid phone number''), w))
       \<and> (ensureClientReady tie sched userId w = Inr (Rejected err, w1)
          \<longrightarrow> send_message tie sched be userId number message w
                = Inr (Response 500 (ErrorBody (err_message err)), w1))
       \<and> (sessions w userId = Some ss \<and> \<not> ready ss
           \<and> (\<forall>j. 1 \<le> j \<and> j \<le> polls_before_timeout tie \<longrightarrow> \<not> seen_ready sched userId w j)
           \<and> world_at sched (Suc (polls_before_timeout tie)) w = Inr wz
          \<longrightarrow> send_message tie sched be userId number message w
                = Inr (Response 500 (ErrorBody ''Timeout: Client not ready after waiting.''), wz))"
proof -
  have fields: "truthy_str userId" "truthy number" "truthy message"
    using assms by simp_all
  note unfold = send_message_after_wait[OF fields, unfolded assms(3)]
  show ?thesis
  proof (intro conjI impI)
    assume "ensureClientReady tie sched userId w = Inr (Resolved c, w1)"
    then show "send_message tie sched be userId number message w
                = Inr (Response 400 (ErrorBody ''Invalid phone number''), w1)"
      using assms by (simp add: unfold short_deliver)
  next
    assume "sessions w userId = Some ss \<and> ready ss"
    then show "send_message tie sched be userId number message w
                = Inr (Response 400 (ErrorBody ''Invalid phone number''), w)"
      using assms by (simp add: unfold ensureClientReady_ready short_deliver)
  next
    assume "ensureClientReady tie sched userId w = Inr (Rejected err, w1)"
    then show "send_message tie sched be userId number message w
                = Inr (Response 500 (ErrorBody (err_message err)), w1)"
      using assms(3) by (simp add: unfold)
  next
    assume h: "sessions w userId = Some ss \<and> \<not> ready ss
           \<and> (\<forall>j. 1 \<le> j \<and> j \<le> polls_before_timeout tie \<longrightarrow> \<not> seen_ready sched userId w j)
           \<and> world_at sched (Suc (polls_before_timeout tie)) w = Inr wz"
    then have "awaitReady tie sched userId w = Inr (Rejected timeout_error, wz)"
      by (intro awaitReady_timeout) auto
    with h show "send_message tie sched be userId number message w
                = Inr (Response 500 (ErrorBody ''Timeout: Client not ready after waiting.''), wz)"
      using assms(3) by (simp add: unfold ensureClientReady_waits timeout_error_def)
  qed
qed

theorem short_number_rejected_once_ready_witness:
  "truthy_str ''u1'' \<and> truthy (JStr ''hello'') \<and> length (cleanNumber ''+1 (555) 12'') < 10
   \<and> reply (send_message False (sched_of [(5000, Ready 0)]) accepting ''u1'' (JStr ''+1 (555) 12'')
        (JStr ''hello'') (createClient ''u1'' (init_world {})))
     = Some (Response 400 (ErrorBody ''Invalid phone number''))
   \<and> reply (send_message False no_events accepting ''u1'' (JStr ''+1 (555) 12'')
        (JStr ''hello'') (createClient ''u1'' (init_world {})))
     = Some (Response 500 (ErrorBody ''Timeout: Client not ready after waiting.''))"
proof -
  let ?w = "createClient ''u1'' (init_world {})"
  have pre: "truthy_str ''u1''" "truthy (JStr ''hello'')" "JStr ''+1 (555) 12'' = JStr ''+1 (555) 12''"
    "''+1 (555) 12'' \<noteq> []" "length (cleanNumber ''+1 (555) 12'') < 10"
    by (simp_all add: truthy_str_def cleanNumber_def is_digit_def)
  note T = short_number_rejected_once_ready[OF pre]
  have "ensureClientReady False (sched_of [(5000, Ready 0)]) ''u1'' ?w
      = awaitReady False (sched_of [(5000, Ready 0)]) ''u1'' ?w"
    by (rule ensureClientReady_waits[where s = "\<lparr>client = 0, ready = False, lastQR = None,
        initializing = True, timeout = Some 0\<rparr>"]) simp_all
  with ready_at_5s[of False "init_world {}" "''u1''"]
  have "reply (send_message False (sched_of [(5000, Ready 0)]) accepting ''u1'' (JStr ''+1 (555) 12'')
        (JStr ''hello'') ?w) = Some (Response 400 (ErrorBody ''Invalid phone number''))"
    using T[where tie = False and sched = "sched_of [(5000, Ready 0)]" and w = ?w and c = 0
        and be = accepting]
    by (simp add: reply_def)
  moreover
  have "reply (send_message False no_events accepting ''u1'' (JStr ''+1 (555) 12'')
        (JStr ''hello'') ?w) = Some (Response 500 (ErrorBody ''Timeout: Client not ready after waiting.''))"
    using T[where tie = False and sched = no_events and w = ?w and wz = ?w and be = accepting
        and ss = "\<lparr>client = 0, ready = False, lastQR = None,
        initializing = True, timeout = Some 0\<rparr>"]
    by (simp del: world_at.simps add: reply_def world_at_no_events seen_ready_def gate_tick_def)
  ultimately show ?thesis using pre by blast
qed

text \<open>
  Claim C2 says that a wait whose registry entry is removed fails with a SessionVanished
  error instead of polling on until the timeout. Here the idle timer of the session fires
  2500 ms into the wait: the second read still finds the entry, the third finds none, and
  the wait ends with the error of the timeout.
\<close>

theorem vanished_session_gets_timeout:
  "entry_at (sched_of [(2500, IdleTimer 0)]) ''u1'' (createClient ''u1'' (init_world {})) 2 \<noteq> None
   \<and> entry_at (sched_of [(2500, IdleTimer 0)]) ''u1'' (createClient ''u1'' (init_world {})) 3 = None
   \<and> outcome (awaitReady False (sched_of [(2500, IdleTimer 0)]) ''u1''
        (createClient ''u1'' (init_world {})))
     = Some (Rejected (Error ''Timeout: Client not ready after waiting.''))"
proof -
  let ?w = "createClient ''u1'' (init_world {})"
  let ?sched = "sched_of [(2500, IdleTimer 0)]"
  note at = idle_removed_at_3s[where w = "init_world {}" and u = "''u1''", simplified]
  have "\<exists>wz. awaitReady False ?sched ''u1'' ?w = Inr (Rejected timeout_error, wz)"
    by (intro exI awaitReady_timeout)
       (simp_all del: world_at.simps add: seen_ready_def at gate_tick_def)
  then show ?thesis
    by (auto simp del: world_at.simps simp add: entry_at_def at outcome_def timeout_error_def)
qed

text \<open>
  Claim C2, amended. A read of the interval's callback that finds no registry entry leaves
  the promise pending; the only error the wait ever rejects with is the timeout's; and
  when the entry is absent from the \<open>m\<close>-th read on, no earlier read having found the
  session ready, the wait is rejected with the error of the timeout after 15 seconds.
\<close>

theorem vanished_session_keeps_polling:
  "(sessions wk userId = None \<longrightarrow> gate_tick userId wk = None)
   \<and> (awaitReady tie sched userId w = Inr (Rejected err, w') \<longrightarrow> err = timeout_error)
   \<and> (1 \<le> m \<and> m \<le> polls_before_timeout tie
       \<and> (\<forall>j. 1 \<le> j \<and> j < m \<longrightarrow> \<not> seen_ready sched userId w j)
       \<and> (\<forall>j. m \<le> j \<and> j \<le> polls_before_timeout tie \<longrightarrow> entry_at sched userId w j = None)
       \<and> world_at sched (Suc (polls_before_timeout tie)) w = Inr wz
      \<longrightarrow> awaitReady tie sched userId w = Inr (Rejected timeout_error, wz))"
proof (intro conjI impI)
  assume "sessions wk userId = None"
  then show "gate_tick userId wk = None" by (simp add: gate_tick_def)
next
  assume "awaitReady tie sched userId w = Inr (Rejected err, w')"
  then show "err = timeout_error" by (rule awaitReady_settles)
next
  assume h: "1 \<le> m \<and> m \<le> polls_before_timeout tie
       \<and> (\<forall>j. 1 \<le> j \<and> j < m \<longrightarrow> \<not> seen_ready sched userId w j)
       \<and> (\<forall>j. m \<le> j \<and> j \<le> polls_before_timeout tie \<longrightarrow> entry_at sched userId w j = None)
       \<and> world_at sched (Suc (polls_before_timeout tie)) w = Inr wz"
  have "\<not> seen_ready sched userId w j" if j: "1 \<le> j" "j \<le> polls_before_timeout tie" for j
  proof (cases "j < m")
    case True
    with h j show ?thesis by simp
  next
    case False
    with h j have "entry_at sched userId w j = None" by simp
    then show ?thesis
      by (auto simp: entry_at_def seen_ready_def gate_tick_def split: sum.splits)
  qed
  with h show "awaitReady tie sched userId w = Inr (Rejected timeout_error, wz)"
    by (intro awaitReady_timeout) auto
qed

theorem vanished_session_keeps_polling_witness:
  "sessions (init_world {}) ''u1'' = None
   \<and> gate_tick ''u1'' (init_world {}) = None
   \<and> entry_at (sched_of [(2500, IdleTimer 0)]) ''u1'' (createClient ''u1'' (init_world {})) 3 = None
   \<and> outcome (awaitReady True (sched_of [(2500, IdleTimer 0)]) ''u1''
        (createClient ''u1'' (init_world {})))
     = Some (Rejected timeout_error)"
proof -
  let ?w = "createClient ''u1'' (init_world {})"
  let ?sched = "sched_of [(2500, IdleTimer 0)]"
  note at = idle_removed_at_3s[where w = "init_world {}" and u = "''u1''", simplified]
  note T = vanished_session_keeps_polling[where tie = True and sched = ?sched and w = ?w
      and userId = "''u1''" and m = 3 and wk = "init_world {}"]
  have gone: "entry_at ?sched ''u1'' ?w j = None" if "3 \<le> j" for j
    using that by (simp del: world_at.simps add: entry_at_def at)
  have "\<exists>wz. awaitReady True ?sched ''u1'' ?w = Inr (Rejected timeout_error, wz)"
    by (intro exI T[THEN conjunct2, THEN conjunct2, THEN mp])
       (simp_all del: world_at.simps add: polls_before_timeout_eq gone seen_ready_def at
          gate_tick_def)
  with T gone[of 3] show ?thesis
    by (auto simp: outcome_def)
qed

text \<open>
  Claim C3. When the 'disconnected' handler of a client runs while the registry has an
  entry for its user, it destroys the client, then removes the user's auth directory if
  there is one, then removes the registry entry, and from that state, in which the user
  has no entry left, calls \<open>createClient\<close>: the registry then holds a new session with a
  new client (one that no session held and no event could come from before), not ready,
  without a QR code and with its own idle timer. A check-login that follows answers
  'pending', and once the new client has emitted a QR code, the reply of start-session
  carries it.
\<close>

theorem disconnected_tears_down_and_recreates:
  assumes "sessions w userId = Some s"
  shows "\<exists>w4. on_disconnected userId c reason w = Inr (createClient userId w4)
     \<and> effects w4 = effects w @ [Destroy c]
          @ (if userId \<in> authDirs w then [RmDir (authPath userId)] else [])
     \<and> authDirs w4 = authDirs w - {userId}
     \<and> sessions w4 = (sessions w)(userId := None)
     \<and> nextClient w4 = nextClient w
     \<and> effects (createClient userId w4)
          = effects w4 @ [NewClient (nextClient w) userId, Initialize (nextClient w)]
     \<and> sessions (createClient userId w4) userId
          = Some \<lparr>client = nextClient w, ready = False, lastQR = None, initializing = True,
                  timeout = Some (nextClient w)\<rparr>
     \<and> nextClient w \<in> timers (createClient userId w4)
     \<and> (reachable w \<longrightarrow> client s < nextClient w \<and> owner w (nextClient w) = None)
     \<and> \<not> sessionExists userId (createClient userId w4)
     \<and> fst (check_login userId (createClient userId w4)) = Response 200 (StatusBody ''pending'')
     \<and> (qr \<noteq> [] \<and> toDataURL qr = Some url
        \<longrightarrow> (\<exists>w6. step (Qr (nextClient w) qr) (createClient userId w4) = Inr w6
              \<and> start_session_reply toDataURL userId w6 = Inr (Response 200 (QrBody url))))"
proof -
  define w2 where "w2 = w\<lparr>sessions := (sessions w)(userId \<mapsto> s\<lparr>ready := False, initializing := False\<rparr>),
      effects := effects w @ [Destroy c]\<rparr>"
  define w4 where "w4 = (if userId \<in> authDirs w
      then w2\<lparr>authDirs := authDirs w - {userId},
              effects := effects w2 @ [RmDir (authPath userId)],
              sessions := (sessions w)(userId := None)\<rparr>
      else w2\<lparr>sessions := (sessions w)(userId := None)\<rparr>)"
  have run: "on_disconnected userId c reason w = Inr (createClient userId w4)"
    using assms by (simp add: on_disconnected_def w4_def w2_def Let_def)
  have sel: "effects w4 = effects w @ [Destroy c]
          @ (if userId \<in> authDirs w then [RmDir (authPath userId)] else [])"
    "authDirs w4 = authDirs w - {userId}" "sessions w4 = (sessions w)(userId := None)"
    "nextClient w4 = nextClient w" "owner w4 = owner w"
    by (auto simp: w4_def w2_def)
  have qr: "\<exists>w6. step (Qr (nextClient w) qr) (createClient userId w4) = Inr w6
              \<and> start_session_reply toDataURL userId w6 = Inr (Response 200 (QrBody url))"
    if "qr \<noteq> []" "toDataURL qr = Some url"
    using that by (simp add: sel on_qr_def start_session_reply_def)
  have new: "client s < nextClient w \<and> owner w (nextClient w) = None" if "reachable w"
  proof -
    from that have ids: "fresh_ids w" by (rule fresh_ids_reachable)
    with assms have "client s < nextClient w" by (auto simp: fresh_ids_def)
    moreover have "owner w (nextClient w) = None"
    proof (cases "owner w (nextClient w)")
      case (Some u)
      with ids have "nextClient w < nextClient w" unfolding fresh_ids_def by blast
      then show ?thesis by simp
    qed simp
    ultimately show ?thesis by simp
  qed
  show ?thesis
    by (rule exI[of _ w4])
       (use run sel qr new in \<open>simp add: sessionExists_def check_login_def\<close>)
qed

theorem disconnected_tears_down_and_recreates_witness:
  "sessions (createClient ''u1'' (init_world {''u1''})) ''u1'' \<noteq> None
   \<and> (\<exists>w'. on_disconnected ''u1'' 0 ''LOGOUT'' (createClient ''u1'' (init_world {''u1''})) = Inr w'
        \<and> effects w' = [NewClient 0 ''u1'', Initialize 0, Destroy 0, RmDir ''.wwebjs_auth/u1'',
             NewClient 1 ''u1'', Initialize 1]
        \<and> sessions w' ''u1'' = Some \<lparr>client = 1, ready = False, lastQR = None,
             initializing = True, timeout = Some 1\<rparr>
        \<and> authDirs w' = {})"
proof -
  let ?w = "createClient ''u1'' (init_world {''u1''})"
  have entry: "sessions ?w ''u1'' = Some \<lparr>client = 0, ready = False, lastQR = None,
      initializing = True, timeout = Some 0\<rparr>" by simp
  from disconnected_tears_down_and_recreates[OF entry, of 0 "''LOGOUT''" "''''" Map.empty "''''"]
  obtain w4 where w4: "on_disconnected ''u1'' 0 ''LOGOUT'' ?w = Inr (createClient ''u1'' w4)"
    "effects w4 = effects ?w @ [Destroy 0] @ (if ''u1'' \<in> authDirs ?w then [RmDir (authPath ''u1'')] else [])"
    "authDirs w4 = authDirs ?w - {''u1''}" "nextClient w4 = nextClient ?w"
    by (elim exE conjE) (rule that)
  have "effects (createClient ''u1'' w4) = [NewClient 0 ''u1'', Initialize 0, Destroy 0,
      RmDir ''.wwebjs_auth/u1'', NewClient 1 ''u1'', Initialize 1]"
    using w4 by (simp add: authPath_def)
  moreover have "sessions (createClient ''u1'' w4) ''u1'' = Some \<lparr>client = 1, ready = False,
      lastQR = None, initializing = True, timeout = Some 1\<rparr>"
    using w4 by simp
  moreover have "authDirs (createClient ''u1'' w4) = {}" using w4 by simp
  ultimately show ?thesis using w4(1) entry by simp
qed

text \<open>
  Claim C4 says that the request succeeds if the session becomes ready within 15 seconds.
  The wait learns of the session only when the interval's callback runs. Here the session
  becomes ready 14500 ms into the wait, after the callback's run at 14000 ms; the timeout's
  callback runs at 15000 ms before the interval's, and the request is answered 500 with the
  message of the timeout although the registry holds a ready session by then.
\<close>

theorem ready_between_polls_times_out:
  "entry_at (sched_of [(14500, Ready 0)]) ''u1'' (createClient ''u1'' (init_world {})) 15
     = Some \<lparr>client = 0, ready = True, lastQR = None, initializing = False, timeout = None\<rparr>
   \<and> reply (send_message False (sched_of [(14500, Ready 0)]) accepting ''u1''
        (JStr ''1234567890'') (JStr ''hello'') (createClient ''u1'' (init_world {})))
     = Some (Response 500 (ErrorBody ''Timeout: Client not ready after waiting.''))"
proof -
  let ?w = "createClient ''u1'' (init_world {})"
  let ?sched = "sched_of [(14500, Ready 0)]"
  let ?s = "\<lparr>client = 0, ready = False, lastQR = None, initializing = True, timeout = Some 0\<rparr>"
  let ?sm = "\<lparr>client = 0, ready = True, lastQR = None, initializing = False, timeout = None\<rparr>"
  define wm where "wm = ?w\<lparr>sessions := (sessions ?w)(''u1'' \<mapsto> ?sm), timers := timers ?w - {0}\<rparr>"
  have sched: "?sched j = (if j = 15 then [Ready 0] else [])" for j
    by (auto simp: sched_of_single)
  have run: "run_events [Ready 0] ?w = Inr wm"
    using ready_after_create[of "init_world {}" "''u1''"] by (simp add: wm_def)
  have at: "world_at ?sched k ?w = Inr (if k < 15 then ?w else wm)" for k
    using sched run by (rule world_at_single) simp
  have tick: "gate_tick ''u1'' ?w = None" by (simp add: gate_tick_def)
  have unseen: "\<forall>j. 1 \<le> j \<and> j \<le> polls_before_timeout False \<longrightarrow> \<not> seen_ready ?sched ''u1'' ?w j"
    by (simp del: world_at.simps add: polls_before_timeout_eq seen_ready_def at tick)
  have last: "world_at ?sched (Suc (polls_before_timeout False)) ?w = Inr wm"
    by (simp del: world_at.simps add: polls_before_timeout_eq at)
  have wait: "awaitReady False ?sched ''u1'' ?w = Inr (Rejected timeout_error, wm)"
    using unseen last by (rule awaitReady_timeout)
  have entry: "sessions ?w ''u1'' = Some ?s" by simp
  have "ensureClientReady False ?sched ''u1'' ?w = Inr (Rejected timeout_error, wm)"
    using ensureClientReady_waits[of ?w "''u1''" ?s False ?sched] entry wait by simp
  then have a: "reply (send_message False ?sched accepting ''u1''
        (JStr ''1234567890'') (JStr ''hello'') ?w)
     = Some (Response 500 (ErrorBody ''Timeout: Client not ready after waiting.''))"
    by (simp add: send_message_after_wait truthy_str_def reply_def timeout_error_def)
  have b: "entry_at ?sched ''u1'' ?w 15 = Some ?sm"
    by (simp del: world_at.simps add: entry_at_def at wm_def)
  from b a show ?thesis by (rule conjI)
qed

text \<open>
  Claim C4, amended. A send-message request with all three fields, for a user whose
  session is registered and not ready, waits on the readiness gate. The interval's callback reads the
  registry every 1000 ms, 14 times before the timeout of 15000 ms (15 times when the
  callback due at 15000 ms runs before the timeout's). If the \<open>m\<close>-th of these reads is the
  first to find the session ready, the handler goes on with the client handle that the
  registry holds at that moment; if none of them finds it ready, the handler answers 500
  with the message of the timeout.
\<close>

theorem send_message_waits_until_ready:
  assumes "truthy_str userId" and "truthy number" and "truthy message"
      and "sessions w userId = Some s" and "\<not> ready s"
  shows "polls_before_timeout tie = (if tie then 15 else 14)
       \<and> (1 \<le> m \<and> m \<le> polls_before_timeout tie
            \<and> (\<forall>j. 1 \<le> j \<and> j < m \<longrightarrow> \<not> seen_ready sched userId w j)
            \<and> world_at sched m w = Inr wm \<and> sessions wm userId = Some sm \<and> ready sm
          \<longrightarrow> send_message tie sched be userId number message w
                = Inr (send_message_deliver be (client sm) number message wm))
       \<and> ((\<forall>j. 1 \<le> j \<and> j \<le> polls_before_timeout tie \<longrightarrow> \<not> seen_ready sched userId w j)
            \<and> world_at sched (Suc (polls_before_timeout tie)) w = Inr wz
          \<longrightarrow> send_message tie sched be userId number message w
                = Inr (Response 500 (ErrorBody ''Timeout: Client not ready after waiting.''), wz))"
proof (intro conjI impI)
  show "polls_before_timeout tie = (if tie then 15 else 14)"
    by (rule polls_before_timeout_eq)
next
  assume h: "1 \<le> m \<and> m \<le> polls_before_timeout tie
            \<and> (\<forall>j. 1 \<le> j \<and> j < m \<longrightarrow> \<not> seen_ready sched userId w j)
            \<and> world_at sched m w = Inr wm \<and> sessions wm userId = Some sm \<and> ready sm"
  then have "gate_tick userId wm = Some (client sm)" by (simp add: gate_tick_def)
  with h have "awaitReady tie sched userId w = Inr (Resolved (client sm), wm)"
    by (intro awaitReady_resolved[where m = m]) auto
  with assms show "send_message tie sched be userId number message w
                = Inr (send_message_deliver be (client sm) number message wm)"
    by (simp add: send_message_after_wait ensureClientReady_waits)
next
  assume h: "(\<forall>j. 1 \<le> j \<and> j \<le> polls_before_timeout tie \<longrightarrow> \<not> seen_ready sched userId w j)
            \<and> world_at sched (Suc (polls_before_timeout tie)) w = Inr wz"
  then have "awaitReady tie sched userId w = Inr (Rejected timeout_error, wz)"
    by (intro awaitReady_timeout) auto
  with assms show "send_message tie sched be userId number message w
                = Inr (Response 500 (ErrorBody ''Timeout: Client not ready after waiting.''), wz)"
    by (simp add: send_message_after_wait ensureClientReady_waits timeout_error_def)
qed

theorem send_message_waits_until_ready_witness:
  "reply (send_message False (sched_of [(5000, Ready 0)]) accepting ''u1'' (JStr ''1234567890'')
       (JStr ''hello'') (createClient ''u1'' (init_world {})))
     = Some (Response 200 (StatusBody ''Message sent''))
   \<and> reply (send_message False (sched_of [(20000, Ready 0)]) accepting ''u1'' (JStr ''1234567890'')
       (JStr ''hello'') (createClient ''u1'' (init_world {})))
     = Some (Response 500 (ErrorBody ''Timeout: Client not ready after waiting.''))"
proof -
  let ?w = "createClient ''u1'' (init_world {})"
  let ?s = "\<lparr>client = 0, ready = False, lastQR = None, initializing = True, timeout = Some 0\<rparr>"
  let ?sm = "\<lparr>client = 0, ready = True, lastQR = None, initializing = False, timeout = None\<rparr>"
  let ?early = "sched_of [(5000, Ready 0)]"
  let ?late = "sched_of [(20000, Ready 0)]"
  define wm where "wm = ?w\<lparr>sessions := (sessions ?w)(''u1'' \<mapsto> ?sm), timers := timers ?w - {0}\<rparr>"
  have fields: "truthy_str ''u1''" "truthy (JStr ''1234567890'')" "truthy (JStr ''hello'')"
    by (simp_all add: truthy_str_def)
  have entry: "sessions ?w ''u1'' = Some ?s" by simp
  have pending: "\<not> ready ?s" by simp
  note T = send_message_waits_until_ready[OF fields entry pending]
  have tick: "gate_tick ''u1'' ?w = None" by (simp add: gate_tick_def)
  have early: "?early j = (if j = 5 then [Ready 0] else [])" for j
    by (auto simp: sched_of_single)
  have before: "world_at ?early j ?w = Inr ?w" if "j < 5" for j
    using that by (intro world_at_idle) (simp add: early)
  have "world_at ?early (Suc 4) ?w = run_events (?early (Suc 4)) ?w"
    by (intro world_at_Suc_idle before) simp
  also have "\<dots> = Inr wm"
    using ready_after_create[of "init_world {}" "''u1''"] by (simp add: early wm_def)
  finally have at5: "world_at ?early 5 ?w = Inr wm" by simp
  have unseen: "\<forall>j. 1 \<le> j \<and> j < 5 \<longrightarrow> \<not> seen_ready ?early ''u1'' ?w j"
    by (simp add: seen_ready_def before tick)
  have wm_entry: "sessions wm ''u1'' = Some ?sm" "ready ?sm" by (simp_all add: wm_def)
  have "send_message False ?early accepting ''u1'' (JStr ''1234567890'') (JStr ''hello'') ?w
          = Inr (send_message_deliver accepting (client ?sm) (JStr ''1234567890'') (JStr ''hello'') wm)"
    using T[where tie = False and m = 5 and sched = ?early and wm = wm and sm = ?sm]
      unseen at5 wm_entry by (simp add: polls_before_timeout_eq)
  then have one: "reply (send_message False ?early accepting ''u1'' (JStr ''1234567890'')
       (JStr ''hello'') ?w) = Some (Response 200 (StatusBody ''Message sent''))"
    by (simp add: reply_def send_message_deliver_def cleanNumber_def is_digit_def send_call_def
        accepting_def)
  have late: "?late j = []" if "j \<le> 16" for j
    using that by (simp add: sched_of_single)
  have still: "world_at ?late j ?w = Inr ?w" if "j \<le> 16" for j
    using that by (intro world_at_idle) (simp add: late)
  have never: "\<forall>j. 1 \<le> j \<and> j \<le> 14 \<longrightarrow> \<not> seen_ready ?late ''u1'' ?w j"
    by (simp add: seen_ready_def still tick)
  have "send_message False ?late accepting ''u1'' (JStr ''1234567890'') (JStr ''hello'') ?w
          = Inr (Response 500 (ErrorBody ''Timeout: Client not ready after waiting.''), ?w)"
    using T[where tie = False and sched = ?late and wz = ?w] never still[of 15]
    by (simp add: polls_before_timeout_eq)
  then have two: "reply (send_message False ?late accepting ''u1'' (JStr ''1234567890'')
       (JStr ''hello'') ?w) = Some (Response 500 (ErrorBody ''Timeout: Client not ready after waiting.''))"
    by (simp add: reply_def)
  from one two show ?thesis by blast
qed

text \<open>
  Claim C5. The registry is keyed by the user identifier, so it holds at most one session
  for each user. Every request path that creates a session does so only for a user without
  an entry: when the user has one, the start of start-session, the start of the send
  handlers and check-login leave the world as it is, so the entry is not replaced and no
  second client is constructed. When the user has none, exactly one client is constructed
  and the entries of the other users are untouched. No callback and no request other than
  the 'disconnected' handler gives a user who has an entry another client: after it the
  entry holds the same client or is gone, and no client was constructed for the user.
\<close>

theorem create_request_is_idempotent:
  "(sessions w userId = Some s
      \<longrightarrow> start_session_ensure userId w = w \<and> ensure_session userId w = w
          \<and> snd (check_login userId w) = w
          \<and> step (EnsureSession userId) w = Inr w \<and> step (CheckLogin userId) w = Inr w
          \<and> start_session_ensure userId (start_session_ensure userId w)
               = start_session_ensure userId w)
   \<and> (sessions w userId = None
      \<longrightarrow> start_session_ensure userId w = createClient userId w
          \<and> ensure_session userId w = createClient userId w
          \<and> nextClient (createClient userId w) = Suc (nextClient w)
          \<and> effects (createClient userId w)
               = effects w @ [NewClient (nextClient w) userId, Initialize (nextClient w)]
          \<and> (\<forall>other. other \<noteq> userId
                \<longrightarrow> sessions (createClient userId w) other = sessions w other)
          \<and> start_session_ensure userId (start_session_ensure userId w)
               = start_session_ensure userId w)
   \<and> (step e w = Inr w' \<and> sessions w userId = Some s \<and> (\<forall>c reason. e \<noteq> Disconnected c reason)
      \<longrightarrow> (sessions w' userId = None
             \<or> (\<exists>s'. sessions w' userId = Some s' \<and> client s' = client s))
          \<and> (\<exists>xs. effects w' = effects w @ xs \<and> (\<forall>c. NewClient c userId \<notin> set xs)))"
proof (intro conjI impI)
  assume "step e w = Inr w' \<and> sessions w userId = Some s \<and> (\<forall>c reason. e \<noteq> Disconnected c reason)"
  then have *: "(sessions w' userId = None
             \<or> (\<exists>s'. sessions w' userId = Some s' \<and> client s' = client s))
          \<and> (\<exists>xs. effects w' = effects w @ xs \<and> (\<forall>c. NewClient c userId \<notin> set xs))"
    using step_keeps_client[of e w w' userId s] by blast
  from * show "sessions w' userId = None
             \<or> (\<exists>s'. sessions w' userId = Some s' \<and> client s' = client s)" by blast
  from * show "\<exists>xs. effects w' = effects w @ xs \<and> (\<forall>c. NewClient c userId \<notin> set xs)" by blast
qed (simp_all add: start_session_ensure_def ensure_session_def check_login_def)

theorem create_request_is_idempotent_witness:
  "sessions (createClient ''u1'' (init_world {})) ''u1'' \<noteq> None
   \<and> start_session_ensure ''u1'' (createClient ''u1'' (init_world {}))
       = createClient ''u1'' (init_world {})
   \<and> snd (check_login ''u1'' (createClient ''u1'' (init_world {})))
       = createClient ''u1'' (init_world {})
   \<and> start_session_ensure ''u1'' (init_world {}) = createClient ''u1'' (init_world {})
   \<and> nextClient (start_session_ensure ''u1'' (start_session_ensure ''u1'' (init_world {}))) = 1"
proof -
  let ?w = "createClient ''u1'' (init_world {})"
  have entry: "sessions ?w ''u1'' = Some \<lparr>client = 0, ready = False, lastQR = None,
      initializing = True, timeout = Some 0\<rparr>" by simp
  have none: "sessions (init_world {}) ''u1'' = None" by simp
  from create_request_is_idempotent[where w = ?w and userId = "''u1''"] entry
  have a: "start_session_ensure ''u1'' ?w = ?w" "snd (check_login ''u1'' ?w) = ?w"
    by blast+
  from create_request_is_idempotent[where w = "init_world {}" and userId = "''u1''"] none
  have b: "start_session_ensure ''u1'' (init_world {}) = ?w"
    "start_session_ensure ''u1'' (start_session_ensure ''u1'' (init_world {}))
       = start_session_ensure ''u1'' (init_world {})"
    by blast+
  from a b show ?thesis by simp
qed

text \<open>
  Claim C6 says that every session that does not become ready within its two minutes has
  its client destroyed and its entry removed. The idle timer's callback looks the session up
  by the user identifier, and the 'disconnected' handler, unlike the 'ready' handler, does
  not clear the timer of the session it removes. So when client 0 is disconnected before it
  was ever ready, the timer of its session stays armed. When it fires, it finds the session
  of client 1, which the 'disconnected' handler has created: it destroys client 0 a second
  time and removes the entry of client 1. Client 1 is never destroyed, and when its own
  timer fires, the callback reads \<^verbatim>\<open>ready\<close> of an absent entry and throws.
\<close>

theorem stale_idle_timer_removes_recreated_session:
  "\<exists>w1 w2. step (Disconnected 0 ''NAVIGATION'') (createClient ''u1'' (init_world {})) = Inr w1
     \<and> sessions w1 ''u1'' = Some \<lparr>client = 1, ready = False, lastQR = None,
          initializing = True, timeout = Some 1\<rparr>
     \<and> timers w1 = {0, 1}
     \<and> step (IdleTimer 0) w1 = Inr w2
     \<and> sessions w2 ''u1'' = None
     \<and> effects w2 = [NewClient 0 ''u1'', Initialize 0, Destroy 0,
          NewClient 1 ''u1'', Initialize 1, Destroy 0]
     \<and> Destroy 1 \<notin> set (effects w2)
     \<and> timers w2 = {1}
     \<and> step (IdleTimer 1) w2 = Inl undefined_session"
proof -
  let ?w = "createClient ''u1'' (init_world {})"
  let ?s0 = "\<lparr>client = 0, ready = False, lastQR = None, initializing = False, timeout = Some 0\<rparr>"
  define w4 where "w4 = ?w\<lparr>sessions := (sessions ?w)(''u1'' \<mapsto> ?s0),
      effects := effects ?w @ [Destroy 0], sessions := Map.empty\<rparr>"
  define w1 where "w1 = createClient ''u1'' w4"
  define w2 where "w2 = w1\<lparr>timers := {1}, effects := effects w1 @ [Destroy 0],
      sessions := Map.empty\<rparr>"
  have sel4: "sessions w4 = Map.empty" "owner w4 = [0 \<mapsto> ''u1'']" "timers w4 = {0}"
    "nextClient w4 = 1" "authDirs w4 = {}"
    "effects w4 = [NewClient 0 ''u1'', Initialize 0, Destroy 0]"
    by (simp_all add: w4_def)
  have d: "step (Disconnected 0 ''NAVIGATION'') ?w = Inr w1"
    by (simp add: on_disconnected_def w1_def w4_def Let_def)
  have sel1: "sessions w1 ''u1'' = Some \<lparr>client = 1, ready = False, lastQR = None,
          initializing = True, timeout = Some 1\<rparr>"
    "owner w1 0 = Some ''u1''" "owner w1 (Suc 0) = Some ''u1''" "timers w1 = {0, 1}"
    "effects w1 = [NewClient 0 ''u1'', Initialize 0, Destroy 0, NewClient 1 ''u1'', Initialize 1]"
    unfolding w1_def by (simp_all add: sel4 insert_commute)
  have t0: "step (IdleTimer 0) w1 = Inr w2"
    by (simp add: sel1 idle_timeout_def w2_def w1_def sel4 insert_commute)
  have sel2: "sessions w2 ''u1'' = None" "owner w2 (Suc 0) = Some ''u1''" "timers w2 = {1}"
    "effects w2 = [NewClient 0 ''u1'', Initialize 0, Destroy 0,
          NewClient 1 ''u1'', Initialize 1, Destroy 0]"
    by (simp_all add: w2_def sel1)
  have t1: "step (IdleTimer 1) w2 = Inl undefined_session"
    by (simp add: sel2 idle_timeout_def)
  have never: "Destroy 1 \<notin> set (effects w2)" by (simp add: sel2)
  from d sel1(1,4) t0 sel2(1,4) never sel2(3) t1 show ?thesis
    by (intro exI[of _ w1] exI[of _ w2] conjI)
qed

text \<open>
  Claim C7. The 'ready' handler sets \<^verbatim>\<open>ready\<close> and clears \<^verbatim>\<open>lastQR\<close> in one
  callback. No callback makes a session ready (one that was absent or not ready before
  the callback) and leaves it a QR code; and in every world that the server can reach,
  every session that is ready has no QR code.
\<close>

theorem ready_session_has_no_qr:
  "(sessions w userId = Some s
      \<longrightarrow> (\<exists>v s1. on_ready userId w = Inr v \<and> sessions v userId = Some s1
             \<and> ready s1 \<and> lastQR s1 = None))
   \<and> (step e w = Inr w' \<and> sessions w' userId = Some s' \<and> ready s'
        \<and> (\<forall>s0. sessions w userId = Some s0 \<longrightarrow> \<not> ready s0)
      \<longrightarrow> lastQR s' = None)
   \<and> (reachable w \<and> sessions w userId = Some s \<and> ready s \<longrightarrow> lastQR s = None)"
proof (intro conjI impI)
  assume "sessions w userId = Some s"
  then show "\<exists>v s1. on_ready userId w = Inr v \<and> sessions v userId = Some s1
             \<and> ready s1 \<and> lastQR s1 = None"
    by (cases "timeout s") (simp_all add: on_ready_def)
next
  assume "step e w = Inr w' \<and> sessions w' userId = Some s' \<and> ready s'
        \<and> (\<forall>s0. sessions w userId = Some s0 \<longrightarrow> \<not> ready s0)"
  then show "lastQR s' = None"
    using becomes_ready_without_qr[of e w w' userId s'] by blast
next
  assume "reachable w \<and> sessions w userId = Some s \<and> ready s"
  then show "lastQR s = None"
    using qr_cleared_reachable[of w] by (auto simp: qr_cleared_def)
qed

theorem ready_session_has_no_qr_witness:
  "\<exists>w1 w2 s. run_events [EnsureSession ''u1'', Qr 0 ''2@abc''] (init_world {}) = Inr w1
     \<and> sessions w1 ''u1'' = Some \<lparr>client = 0, ready = False, lastQR = Some ''2@abc'',
          initializing = True, timeout = Some 0\<rparr>
     \<and> step (Ready 0) w1 = Inr w2 \<and> reachable w2
     \<and> sessions w2 ''u1'' = Some s \<and> ready s \<and> lastQR s = None"
proof -
  let ?w = "createClient ''u1'' (init_world {})"
  let ?s1 = "\<lparr>client = 0, ready = False, lastQR = Some ''2@abc'',
          initializing = True, timeout = Some 0\<rparr>"
  let ?s2 = "\<lparr>client = 0, ready = True, lastQR = None,
          initializing = False, timeout = None\<rparr>"
  define w1 where "w1 = ?w\<lparr>sessions := (sessions ?w)(''u1'' \<mapsto> ?s1)\<rparr>"
  define w2 where "w2 = w1\<lparr>sessions := (sessions w1)(''u1'' \<mapsto> ?s2), timers := timers w1 - {0}\<rparr>"
  have run: "run_events [EnsureSession ''u1'', Qr 0 ''2@abc''] (init_world {}) = Inr w1"
    by (simp add: truthy_str_def ensure_session_def on_qr_def w1_def)
  have entry1: "sessions w1 ''u1'' = Some ?s1" by (simp add: w1_def)
  have ready: "step (Ready 0) w1 = Inr w2"
    by (simp add: w1_def w2_def on_ready_def)
  have "reachable (init_world {})" by (rule reachable.boot)
  then have "reachable w1" using run by (rule reachable_run_events)
  then have reach: "reachable w2" using ready by (rule reachable.event)
  have entry2: "sessions w2 ''u1'' = Some ?s2" "ready ?s2" by (simp_all add: w2_def)
  from ready_session_has_no_qr[where w = w2 and userId = "''u1''" and s = ?s2] reach entry2
  have "lastQR ?s2 = None" by blast
  with run entry1 ready reach entry2 show ?thesis by (intro exI conjI)
qed

text \<open>
  Claim C8. A send-pdf-url request that is answered with success has made exactly two
  \<^verbatim>\<open>sendMessage\<close> calls, on one client and to one chat: first the text, then the
  document. Whatever its answer, the calls it made are these two in this order, the first
  of them alone (the text is sent and the document is not), or none. A send-pdf-base64 or
  send-image-base64 request makes one call or none, and one that is answered with success
  has made exactly one; the call carries the attachment and has the message as its
  caption.
\<close>

theorem media_handlers_send_calls:
  "(send_pdf_url tie sched fetch be userId number message pdfUrl w = Inr (r, w')
      \<longrightarrow> (\<exists>xs. sends w' = sends w @ xs
            \<and> (xs = [] \<or> (\<exists>c s pdf. number = JStr s \<and> fetch pdfUrl = Inr pdf
                  \<and> (xs = [SendMessage c (chatId s) (Text message) None]
                     \<or> xs = [SendMessage c (chatId s) (Text message) None,
                            SendMessage c (chatId s)
                              (Media (MessageMedia (JStr ''application/pdf'') (JStr pdf)
                                 (JStr ''document.pdf''))) None])))
            \<and> (\<forall>body. r = Response 200 body \<longrightarrow>
                 (\<exists>c s pdf. number = JStr s \<and> fetch pdfUrl = Inr pdf
                    \<and> xs = [SendMessage c (chatId s) (Text message) None,
                            SendMessage c (chatId s)
                              (Media (MessageMedia (JStr ''application/pdf'') (JStr pdf)
                                 (JStr ''document.pdf''))) None]))))
   \<and> (send_pdf_base64 tie sched be userId number message pdfBase64 filename w = Inr (r, w')
      \<longrightarrow> (\<exists>xs. sends w' = sends w @ xs
            \<and> (xs = [] \<or> (\<exists>c s. number = JStr s \<and> xs = [SendMessage c (chatId s)
                       (Media (MessageMedia (JStr ''application/pdf'') pdfBase64
                          (or_default filename ''document.pdf''))) (Some message)]))
            \<and> (\<forall>body. r = Response 200 body \<longrightarrow>
                 (\<exists>c s. number = JStr s
                    \<and> xs = [SendMessage c (chatId s)
                              (Media (MessageMedia (JStr ''application/pdf'') pdfBase64
                                 (or_default filename ''document.pdf''))) (Some message)]))))
   \<and> (send_image_base64 tie sched be userId number message imageBase64 filename mimeType w
        = Inr (r, w')
      \<longrightarrow> (\<exists>xs. sends w' = sends w @ xs
            \<and> (xs = [] \<or> (\<exists>c s. number = JStr s \<and> xs = [SendMessage c (chatId s)
                       (Media (MessageMedia mimeType imageBase64
                          (or_default filename ''image.jpg''))) (Some message)]))
            \<and> (\<forall>body. r = Response 200 body \<longrightarrow>
                 (\<exists>c s. number = JStr s
                    \<and> xs = [SendMessage c (chatId s)
                              (Media (MessageMedia mimeType imageBase64
                                 (or_default filename ''image.jpg''))) (Some message)]))))"
proof (intro conjI impI)
  assume h: "send_pdf_url tie sched fetch be userId number message pdfUrl w = Inr (r, w')"
  show "\<exists>xs. sends w' = sends w @ xs
            \<and> (xs = [] \<or> (\<exists>c s pdf. number = JStr s \<and> fetch pdfUrl = Inr pdf
                  \<and> (xs = [SendMessage c (chatId s) (Text message) None]
                     \<or> xs = [SendMessage c (chatId s) (Text message) None,
                            SendMessage c (chatId s)
                              (Media (MessageMedia (JStr ''application/pdf'') (JStr pdf)
                                 (JStr ''document.pdf''))) None])))
            \<and> (\<forall>body. r = Response 200 body \<longrightarrow>
                 (\<exists>c s pdf. number = JStr s \<and> fetch pdfUrl = Inr pdf
                    \<and> xs = [SendMessage c (chatId s) (Text message) None,
                            SendMessage c (chatId s)
                              (Media (MessageMedia (JStr ''application/pdf'') (JStr pdf)
                                 (JStr ''document.pdf''))) None]))"
  proof (cases "\<not> truthy_str userId \<or> \<not> truthy number \<or> \<not> truthy message \<or> \<not> truthy pdfUrl")
    case True
    with h show ?thesis by (auto simp: send_pdf_url_def)
  next
    case False
    with h obtain x w1 where e: "ensureClientReady tie sched userId w = Inr (x, w1)"
      by (auto simp: send_pdf_url_def split: sum.splits)
    then have same: "sends w1 = sends w" by (rule sends_ensureClientReady)
    show ?thesis
    proof (cases x)
      case (Resolved c)
      with h False e have "send_pdf_url_deliver fetch be c number message pdfUrl w1 = (r, w')"
        by (auto simp: send_pdf_url_def)
      from pdf_url_deliver_sends[OF this] same show ?thesis by fastforce
    next
      case (Rejected err)
      with h False e same show ?thesis by (auto simp: send_pdf_url_def)
    qed
  qed
next
  assume h: "send_pdf_base64 tie sched be userId number message pdfBase64 filename w = Inr (r, w')"
  show "\<exists>xs. sends w' = sends w @ xs
            \<and> (xs = [] \<or> (\<exists>c s. number = JStr s \<and> xs = [SendMessage c (chatId s)
                       (Media (MessageMedia (JStr ''application/pdf'') pdfBase64
                          (or_default filename ''document.pdf''))) (Some message)]))
            \<and> (\<forall>body. r = Response 200 body \<longrightarrow>
                 (\<exists>c s. number = JStr s
                    \<and> xs = [SendMessage c (chatId s)
                              (Media (MessageMedia (JStr ''application/pdf'') pdfBase64
                                 (or_default filename ''document.pdf''))) (Some message)]))"
  proof (cases "\<not> truthy_str userId \<or> \<not> truthy number \<or> \<not> truthy message \<or> \<not> truthy pdfBase64")
    case True
    with h show ?thesis by (auto simp: send_pdf_base64_def)
  next
    case False
    with h obtain x w1 where e: "ensureClientReady tie sched userId w = Inr (x, w1)"
      by (auto simp: send_pdf_base64_def split: sum.splits)
    then have same: "sends w1 = sends w" by (rule sends_ensureClientReady)
    show ?thesis
    proof (cases x)
      case (Resolved c)
      with h False e
      have "send_pdf_base64_deliver be c number message pdfBase64 filename w1 = (r, w')"
        by (auto simp: send_pdf_base64_def)
      from pdf_base64_deliver_sends[OF this] same show ?thesis by fastforce
    next
      case (Rejected err)
      with h False e same show ?thesis by (auto simp: send_pdf_base64_def)
    qed
  qed
next
  assume h: "send_image_base64 tie sched be userId number message imageBase64 filename mimeType w
        = Inr (r, w')"
  show "\<exists>xs. sends w' = sends w @ xs
            \<and> (xs = [] \<or> (\<exists>c s. number = JStr s \<and> xs = [SendMessage c (chatId s)
                       (Media (MessageMedia mimeType imageBase64
                          (or_default filename ''image.jpg''))) (Some message)]))
            \<and> (\<forall>body. r = Response 200 body \<longrightarrow>
                 (\<exists>c s. number = JStr s
                    \<and> xs = [SendMessage c (chatId s)
                              (Media (MessageMedia mimeType imageBase64
                                 (or_default filename ''image.jpg''))) (Some message)]))"
  proof (cases "\<not> truthy_str userId \<or> \<not> truthy number \<or> \<not> truthy message
      \<or> \<not> truthy imageBase64 \<or> \<not> truthy mimeType")
    case True
    with h show ?thesis by (auto simp: send_image_base64_def)
  next
    case False
    with h obtain x w1 where e: "ensureClientReady tie sched userId w = Inr (x, w1)"
      by (auto simp: send_image_base64_def split: sum.splits)
    then have same: "sends w1 = sends w" by (rule sends_ensureClientReady)
    show ?thesis
    proof (cases x)
      case (Resolved c)
      with h False e
      have "send_image_base64_deliver be c number message imageBase64 filename mimeType w1
          = (r, w')"
        by (auto simp: send_image_base64_def)
      from image_base64_deliver_sends[OF this] same show ?thesis by fastforce
    next
      case (Rejected err)
      with h False e same show ?thesis by (auto simp: send_image_base64_def)
    qed
  qed
qed

theorem media_handlers_send_calls_witness:
  "(\<exists>w' c. send_pdf_url False (sched_of [(5000, Ready 0)]) fetch_ok accepting ''u1''
          (JStr ''+91 98765 43210'') (JStr ''hello'') (JStr ''http://files/a.pdf'') (init_world {})
        = Inr (Response 200 (StatusBody ''Message and PDF sent from URL''), w')
      \<and> sends w' = [SendMessage c ''919876543210@c.us'' (Text (JStr ''hello'')) None,
           SendMessage c ''919876543210@c.us''
             (Media (MessageMedia (JStr ''application/pdf'') (JStr ''JVBERi0xLjQK'')
                (JStr ''document.pdf''))) None])
   \<and> (\<exists>w' c. send_pdf_base64 False (sched_of [(5000, Ready 0)]) accepting ''u1''
          (JStr ''+91 98765 43210'') (JStr ''hello'') (JStr ''AAAA'') JUndefined (init_world {})
        = Inr (Response 200 (StatusBody ''Message and PDF (base64) sent''), w')
      \<and> sends w' = [SendMessage c ''919876543210@c.us''
             (Media (MessageMedia (JStr ''application/pdf'') (JStr ''AAAA'')
                (JStr ''document.pdf''))) (Some (JStr ''hello''))])
   \<and> (\<exists>w' c. send_image_base64 False (sched_of [(5000, Ready 0)]) accepting ''u1''
          (JStr ''+91 98765 43210'') (JStr ''hello'') (JStr ''AAAA'') (JStr ''cat.png'')
          (JStr ''image/png'') (init_world {})
        = Inr (Response 200 (StatusBody ''Image (base64) and message sent''), w')
      \<and> sends w' = [SendMessage c ''919876543210@c.us''
             (Media (MessageMedia (JStr ''image/png'') (JStr ''AAAA'') (JStr ''cat.png'')))
             (Some (JStr ''hello''))])"
proof -
  let ?sched = "sched_of [(5000, Ready 0)]"
  let ?s = "''+91 98765 43210''"
  from ready_at_5s_from_boot[of False "''u1''" "{}"]
  obtain wm where gate: "ensureClientReady False ?sched ''u1'' (init_world {}) = Inr (Resolved 0, wm)"
    by (elim exE conjE) (rule that)
  have u: "truthy_str ''u1''" and s: "?s \<noteq> []" and m: "truthy (JStr ''hello'')"
    and url: "truthy (JStr ''http://files/a.pdf'')" and b64: "truthy (JStr ''AAAA'')"
    and mime: "truthy (JStr ''image/png'')"
    by (simp_all add: truthy_str_def)
  have fetched: "fetch_ok (JStr ''http://files/a.pdf'') = Inr ''JVBERi0xLjQK''"
    by (simp add: fetch_ok_def)
  have file1: "or_default JUndefined ''document.pdf'' = JStr ''document.pdf''"
    and file2: "or_default (JStr ''cat.png'') ''image.jpg'' = JStr ''cat.png''"
    by (simp_all add: or_default_def)
  have boot: "sends (init_world {}) = []" by (simp add: sends_def)
  note run1 = pdf_url_success[where fetch = fetch_ok, OF gate u s m url sample_number(2) fetched]
  note run2 = pdf_base64_success[OF gate u s m b64 sample_number(2), of JUndefined]
  note run3 = image_base64_success[OF gate u s m b64 mime sample_number(2), of "JStr ''cat.png''"]
  note T = media_handlers_send_calls[where tie = False and sched = ?sched and be = accepting
      and userId = "''u1''" and number = "JStr ?s" and message = "JStr ''hello''"
      and w = "init_world {}"]
  have one: "\<exists>w' c. send_pdf_url False ?sched fetch_ok accepting ''u1'' (JStr ?s) (JStr ''hello'')
          (JStr ''http://files/a.pdf'') (init_world {})
        = Inr (Response 200 (StatusBody ''Message and PDF sent from URL''), w')
      \<and> sends w' = [SendMessage c ''919876543210@c.us'' (Text (JStr ''hello'')) None,
           SendMessage c ''919876543210@c.us''
             (Media (MessageMedia (JStr ''application/pdf'') (JStr ''JVBERi0xLjQK'')
                (JStr ''document.pdf''))) None]"
  proof -
    from T[THEN conjunct1, THEN mp, OF run1] obtain xs
      where xs: "sends (wm\<lparr>effects := effects wm @ [SendMessage 0 (chatId ?s) (Text (JStr ''hello'')) None,
          SendMessage 0 (chatId ?s) (Media (MessageMedia (JStr ''application/pdf'')
            (JStr ''JVBERi0xLjQK'') (JStr ''document.pdf''))) None]\<rparr>) = sends (init_world {}) @ xs"
        and ok: "\<forall>body. Response 200 (StatusBody ''Message and PDF sent from URL'') = Response 200 body
           \<longrightarrow> (\<exists>c s pdf. JStr ?s = JStr s
              \<and> fetch_ok (JStr ''http://files/a.pdf'') = Inr pdf
              \<and> xs = [SendMessage c (chatId s) (Text (JStr ''hello'')) None,
                   SendMessage c (chatId s)
                     (Media (MessageMedia (JStr ''application/pdf'') (JStr pdf)
                        (JStr ''document.pdf''))) None])"
      by (elim exE conjE) (rule that)
    from ok[rule_format, OF refl] obtain c s pdf where s: "JStr ?s = JStr s"
      and pdf: "fetch_ok (JStr ''http://files/a.pdf'') = Inr pdf"
      and two: "xs = [SendMessage c (chatId s) (Text (JStr ''hello'')) None,
                   SendMessage c (chatId s)
                     (Media (MessageMedia (JStr ''application/pdf'') (JStr pdf)
                        (JStr ''document.pdf''))) None]"
      by (elim exE conjE) (rule that)
    from s have s': "s = ?s" by (simp only: json.inject)
    from pdf have pdf': "pdf = ''JVBERi0xLjQK''" by (simp only: fetch_ok_def sum.inject)
    from xs two boot have "sends (wm\<lparr>effects := effects wm @ [SendMessage 0 (chatId ?s) (Text (JStr ''hello'')) None,
          SendMessage 0 (chatId ?s) (Media (MessageMedia (JStr ''application/pdf'')
            (JStr ''JVBERi0xLjQK'') (JStr ''document.pdf''))) None]\<rparr>)
        = [SendMessage c ''919876543210@c.us'' (Text (JStr ''hello'')) None,
           SendMessage c ''919876543210@c.us''
             (Media (MessageMedia (JStr ''application/pdf'') (JStr ''JVBERi0xLjQK'')
                (JStr ''document.pdf''))) None]"
      unfolding s' pdf' sample_number(1) by (simp only: append_Nil)
    with run1 show ?thesis by (intro exI conjI)
  qed
  have two: "\<exists>w' c. send_pdf_base64 False ?sched accepting ''u1'' (JStr ?s) (JStr ''hello'')
          (JStr ''AAAA'') JUndefined (init_world {})
        = Inr (Response 200 (StatusBody ''Message and PDF (base64) sent''), w')
      \<and> sends w' = [SendMessage c ''919876543210@c.us''
             (Media (MessageMedia (JStr ''application/pdf'') (JStr ''AAAA'')
                (JStr ''document.pdf''))) (Some (JStr ''hello''))]"
  proof -
    from T[THEN conjunct2, THEN conjunct1, THEN mp, OF run2] obtain xs
      where xs: "sends (wm\<lparr>effects := effects wm @ [SendMessage 0 (chatId ?s)
          (Media (MessageMedia (JStr ''application/pdf'') (JStr ''AAAA'')
            (or_default JUndefined ''document.pdf''))) (Some (JStr ''hello''))]\<rparr>)
          = sends (init_world {}) @ xs"
        and ok: "\<forall>body. Response 200 (StatusBody ''Message and PDF (base64) sent'') = Response 200 body
           \<longrightarrow> (\<exists>c s. JStr ?s = JStr s
              \<and> xs = [SendMessage c (chatId s)
                     (Media (MessageMedia (JStr ''application/pdf'') (JStr ''AAAA'')
                        (or_default JUndefined ''document.pdf''))) (Some (JStr ''hello''))])"
      by (elim exE conjE) (rule that)
    from ok[rule_format, OF refl] obtain c s where s: "JStr ?s = JStr s"
      and two: "xs = [SendMessage c (chatId s)
                     (Media (MessageMedia (JStr ''application/pdf'') (JStr ''AAAA'')
                        (or_default JUndefined ''document.pdf''))) (Some (JStr ''hello''))]"
      by (elim exE conjE) (rule that)
    from s have s': "s = ?s" by (simp only: json.inject)
    from xs two boot have "sends (wm\<lparr>effects := effects wm @ [SendMessage 0 (chatId ?s)
          (Media (MessageMedia (JStr ''application/pdf'') (JStr ''AAAA'')
            (or_default JUndefined ''document.pdf''))) (Some (JStr ''hello''))]\<rparr>)
        = [SendMessage c ''919876543210@c.us''
             (Media (MessageMedia (JStr ''application/pdf'') (JStr ''AAAA'')
                (JStr ''document.pdf''))) (Some (JStr ''hello''))]"
      unfolding s' sample_number(1) file1 by (simp only: append_Nil)
    with run2 show ?thesis by (intro exI conjI)
  qed
  have three: "\<exists>w' c. send_image_base64 False ?sched accepting ''u1'' (JStr ?s) (JStr ''hello'')
          (JStr ''AAAA'') (JStr ''cat.png'') (JStr ''image/png'') (init_world {})
        = Inr (Response 200 (StatusBody ''Image (base64) and message sent''), w')
      \<and> sends w' = [SendMessage c ''919876543210@c.us''
             (Media (MessageMedia (JStr ''image/png'') (JStr ''AAAA'') (JStr ''cat.png'')))
             (Some (JStr ''hello''))]"
  proof -
    from T[THEN conjunct2, THEN conjunct2, THEN mp, OF run3] obtain xs
      where xs: "sends (wm\<lparr>effects := effects wm @ [SendMessage 0 (chatId ?s)
          (Media (MessageMedia (JStr ''image/png'') (JStr ''AAAA'')
            (or_default (JStr ''cat.png'') ''image.jpg''))) (Some (JStr ''hello''))]\<rparr>)
          = sends (init_world {}) @ xs"
        and ok: "\<forall>body. Response 200 (StatusBody ''Image (base64) and message sent'') = Response 200 body
           \<longrightarrow> (\<exists>c s. JStr ?s = JStr s
              \<and> xs = [SendMessage c (chatId s)
                     (Media (MessageMedia (JStr ''image/png'') (JStr ''AAAA'')
                        (or_default (JStr ''cat.png'') ''image.jpg''))) (Some (JStr ''hello''))])"
      by (elim exE conjE) (rule that)
    from ok[rule_format, OF refl] obtain c s where s: "JStr ?s = JStr s"
      and two: "xs = [SendMessage c (chatId s)
                     (Media (MessageMedia (JStr ''image/png'') (JStr ''AAAA'')
                        (or_default (JStr ''cat.png'') ''image.jpg''))) (Some (JStr ''hello''))]"
      by (elim exE conjE) (rule that)
    from s have s': "s = ?s" by (simp only: json.inject)
    from xs two boot have "sends (wm\<lparr>effects := effects wm @ [SendMessage 0 (chatId ?s)
          (Media (MessageMedia (JStr ''image/png'') (JStr ''AAAA'')
            (or_default (JStr ''cat.png'') ''image.jpg''))) (Some (JStr ''hello''))]\<rparr>)
        = [SendMessage c ''919876543210@c.us''
             (Media (MessageMedia (JStr ''image/png'') (JStr ''AAAA'') (JStr ''cat.png'')))
             (Some (JStr ''hello''))]"
      unfolding s' sample_number(1) file2 by (simp only: append_Nil)
    with run3 show ?thesis by (intro exI conjI)
  qed
  from one two three show ?thesis by (intro conjI)
qed

text \<open>
  Claim C9 says that the start-session handler throws whenever the session was removed
  during the delay, by the idle timer or by a disconnect. The 'disconnected' handler
  removes the entry and creates a new one in the same callback: here client 0 is
  disconnected 500 ms into the delay, the registry then holds the session of client 1, and
  the request is answered 'pending'.
\<close>

theorem start_session_answers_after_disconnect:
  "entry_at (sched_of [(500, Disconnected 0 ''LOGOUT'')]) ''u1''
       (start_session_ensure ''u1'' (createClient ''u1'' (init_world {}))) 1
     = Some \<lparr>client = 1, ready = False, lastQR = None, initializing = True, timeout = Some 1\<rparr>
   \<and> reply (start_session data_url (sched_of [(500, Disconnected 0 ''LOGOUT'')] 1) ''u1''
        (createClient ''u1'' (init_world {})))
     = Some (Response 200 (StatusBody ''pending''))"
proof -
  let ?w = "createClient ''u1'' (init_world {})"
  let ?s1 = "\<lparr>client = 1, ready = False, lastQR = None, initializing = True, timeout = Some 1\<rparr>"
  have sched: "sched_of [(500, Disconnected 0 ''LOGOUT'')] 1 = [Disconnected 0 ''LOGOUT'']"
    by (simp add: sched_of_single)
  have sched': "sched_of [(500, Disconnected 0 ''LOGOUT'')] (Suc 0) = [Disconnected 0 ''LOGOUT'']"
    by (simp add: sched_of_single)
  have same: "start_session_ensure ''u1'' ?w = ?w" by (simp add: start_session_ensure_def)
  from disconnected_recreates_entry[of ?w "''u1''" _ 0 "''LOGOUT''"]
  obtain w2 where w2: "run_events [Disconnected 0 ''LOGOUT''] ?w = Inr w2"
    "sessions w2 ''u1'' = Some ?s1"
    by auto
  have a: "entry_at (sched_of [(500, Disconnected 0 ''LOGOUT'')]) ''u1''
       (start_session_ensure ''u1'' ?w) 1 = Some ?s1"
    unfolding same using w2
    by (simp del: run_events.simps add: entry_at_def sched')
  have "start_session_reply data_url ''u1'' w2 = Inr (Response 200 (StatusBody ''pending''))"
    using w2(2) by (simp add: start_session_reply_def)
  then have b: "reply (start_session data_url (sched_of [(500, Disconnected 0 ''LOGOUT'')] 1) ''u1'' ?w)
     = Some (Response 200 (StatusBody ''pending''))"
    unfolding sched using w2(1)
    by (simp del: run_events.simps add: start_session_def truthy_str_def same reply_def)
  from a b show ?thesis by (rule conjI)
qed

text \<open>
  Claim C9, amended. After its delay of 2 seconds the start-session handler reads
  \<^verbatim>\<open>sessions[userId]\<close> and at once its \<^verbatim>\<open>ready\<close> field. The entry is there when
  the delay begins; whenever it is absent when the delay ends, the callback throws, and the
  request gets none of the responses 'ready', 'qr' and 'pending'. The idle timer of a
  session that is not ready leaves the entry absent. A disconnect does not: it leaves the
  entry of a new session, and the callback answers from that one.
\<close>

theorem start_session_throws_when_entry_removed:
  "sessions (start_session_ensure userId w) userId \<noteq> None
   \<and> (sessions w2 userId = None \<longrightarrow> start_session_reply toDataURL userId w2 = Inl undefined_session)
   \<and> (truthy_str userId \<and> run_events grace (start_session_ensure userId w) = Inr w2
        \<and> sessions w2 userId = None
      \<longrightarrow> start_session toDataURL grace userId w = Inl undefined_session)
   \<and> (sessions w userId = Some s \<and> \<not> ready s \<and> owner w c = Some userId \<and> c \<in> timers w
      \<longrightarrow> (\<exists>w3. run_events [IdleTimer c] w = Inr w3 \<and> sessions w3 userId = None))
   \<and> (sessions w userId = Some s \<and> owner w c = Some userId
      \<longrightarrow> (\<exists>w3. run_events [Disconnected c reason] w = Inr w3
            \<and> sessions w3 userId = Some \<lparr>client = nextClient w, ready = False, lastQR = None,
                 initializing = True, timeout = Some (nextClient w)\<rparr>
            \<and> start_session_reply toDataURL userId w3
                 = Inr (Response 200 (StatusBody ''pending''))))"
proof (intro conjI impI)
  assume "sessions w userId = Some s \<and> owner w c = Some userId"
  then obtain w3 where w3: "run_events [Disconnected c reason] w = Inr w3"
    "sessions w3 userId = Some \<lparr>client = nextClient w, ready = False, lastQR = None,
          initializing = True, timeout = Some (nextClient w)\<rparr>"
    using disconnected_recreates_entry[of w userId s c reason] by blast
  from w3(2) have "start_session_reply toDataURL userId w3
      = Inr (Response 200 (StatusBody ''pending''))"
    by (simp add: start_session_reply_def)
  with w3 show "\<exists>w3. run_events [Disconnected c reason] w = Inr w3
            \<and> sessions w3 userId = Some \<lparr>client = nextClient w, ready = False, lastQR = None,
                 initializing = True, timeout = Some (nextClient w)\<rparr>
            \<and> start_session_reply toDataURL userId w3
                 = Inr (Response 200 (StatusBody ''pending''))"
    by blast
next
  assume "sessions w userId = Some s \<and> \<not> ready s \<and> owner w c = Some userId \<and> c \<in> timers w"
  then show "\<exists>w3. run_events [IdleTimer c] w = Inr w3 \<and> sessions w3 userId = None"
    by (simp add: idle_timeout_def)
qed (simp_all add: start_session_ensure_def start_session_reply_def start_session_def)

theorem start_session_throws_when_entry_removed_witness:
  "sessions (start_session_ensure ''u1'' (createClient ''u1'' (init_world {}))) ''u1'' \<noteq> None
   \<and> start_session data_url [IdleTimer 0] ''u1'' (createClient ''u1'' (init_world {}))
       = Inl undefined_session"
proof -
  let ?w = "createClient ''u1'' (init_world {})"
  let ?s = "\<lparr>client = 0, ready = False, lastQR = None, initializing = True, timeout = Some 0\<rparr>"
  note T = start_session_throws_when_entry_removed[where userId = "''u1''" and w = ?w
      and grace = "[IdleTimer 0]" and toDataURL = data_url and s = ?s and c = 0]
  have same: "start_session_ensure ''u1'' ?w = ?w" by (simp add: start_session_ensure_def)
  have pre: "sessions ?w ''u1'' = Some ?s \<and> \<not> ready ?s \<and> owner ?w 0 = Some ''u1'' \<and> 0 \<in> timers ?w"
    by simp
  from T[THEN conjunct2, THEN conjunct2, THEN conjunct2, THEN conjunct1, THEN mp, OF pre]
  obtain w3 where w3: "run_events [IdleTimer 0] ?w = Inr w3" "sessions w3 ''u1'' = None"
    by (elim exE conjE) (rule that)
  have u: "truthy_str ''u1''" by (simp add: truthy_str_def)
  have "start_session data_url [IdleTimer 0] ''u1'' ?w = Inl undefined_session"
    by (rule T[where ?w2.0 = w3, THEN conjunct2, THEN conjunct2, THEN conjunct1, THEN mp])
       (simp del: run_events.simps add: u same w3)
  moreover have "sessions (start_session_ensure ''u1'' ?w) ''u1'' \<noteq> None"
    by (rule T[THEN conjunct1])
  ultimately show ?thesis by (intro conjI)
qed

text \<open>
  Claim C10. The required-field test of each of the four send handlers takes a falsy value
  for a missing one. A send-message request whose message is the empty string, or whose
  number is the number 0, is answered 400 with the 'required' message, and so is every send
  request with a falsy required field; the world is returned as it was, so no session is
  created and the backend is not called.
\<close>

theorem falsy_fields_count_as_missing:
  "send_message tie sched be userId number (JStr []) w
     = Inr (Response 400 (ErrorBody ''userId, number, and message are required''), w)
   \<and> send_message tie sched be userId (JNum 0) message w
     = Inr (Response 400 (ErrorBody ''userId, number, and message are required''), w)
   \<and> (\<not> truthy_str userId \<or> \<not> truthy number \<or> \<not> truthy message
      \<longrightarrow> send_message tie sched be userId number message w
            = Inr (Response 400 (ErrorBody ''userId, number, and message are required''), w))
   \<and> (\<not> truthy_str userId \<or> \<not> truthy number \<or> \<not> truthy message \<or> \<not> truthy pdfUrl
      \<longrightarrow> send_pdf_url tie sched fetch be userId number message pdfUrl w
            = Inr (Response 400
                (ErrorBody ''userId, number, message, and pdfUrl are required''), w))
   \<and> (\<not> truthy_str userId \<or> \<not> truthy number \<or> \<not> truthy message \<or> \<not> truthy pdfBase64
      \<longrightarrow> send_pdf_base64 tie sched be userId number message pdfBase64 filename w
            = Inr (Response 400
                (ErrorBody ''userId, number, message, and pdfBase64 are required''), w))
   \<and> (\<not> truthy_str userId \<or> \<not> truthy number \<or> \<not> truthy message \<or> \<not> truthy imageBase64
        \<or> \<not> truthy mimeType
      \<longrightarrow> send_image_base64 tie sched be userId number message imageBase64 filename mimeType w
            = Inr (Response 400
                (ErrorBody ''userId, number, message, imageBase64, and mimeType are required''),
                w))"
  by (simp add: send_message_def send_pdf_url_def send_pdf_base64_def send_image_base64_def)

theorem falsy_fields_count_as_missing_witness:
  "send_message False no_events accepting ''u1'' (JStr ''1234567890'') (JStr []) (init_world {})
     = Inr (Response 400 (ErrorBody ''userId, number, and message are required''), init_world {})
   \<and> send_message False no_events accepting ''u1'' (JNum 0) (JStr ''hello'') (init_world {})
     = Inr (Response 400 (ErrorBody ''userId, number, and message are required''), init_world {})
   \<and> send_pdf_url False no_events fetch_ok accepting ''u1'' (JStr ''1234567890'') (JStr ''hello'')
        (JStr []) (init_world {})
     = Inr (Response 400 (ErrorBody ''userId, number, message, and pdfUrl are required''),
         init_world {})
   \<and> send_pdf_base64 False no_events accepting ''u1'' (JStr ''1234567890'') (JStr ''hello'')
        JNull JUndefined (init_world {})
     = Inr (Response 400 (ErrorBody ''userId, number, message, and pdfBase64 are required''),
         init_world {})
   \<and> send_image_base64 False no_events accepting ''u1'' (JStr ''1234567890'') (JStr ''hello'')
        (JStr ''AAAA'') JUndefined (JBool False) (init_world {})
     = Inr (Response 400
         (ErrorBody ''userId, number, message, imageBase64, and mimeType are required''),
         init_world {})"
proof -
  note T = falsy_fields_count_as_missing[where tie = False and sched = no_events
      and be = accepting and userId = "''u1''" and w = "init_world {}"]
  have a: "send_message False no_events accepting ''u1'' (JStr ''1234567890'') (JStr [])
      (init_world {})
     = Inr (Response 400 (ErrorBody ''userId, number, and message are required''), init_world {})"
    using T[where number = "JStr ''1234567890''"] by blast
  have b: "send_message False no_events accepting ''u1'' (JNum 0) (JStr ''hello'') (init_world {})
     = Inr (Response 400 (ErrorBody ''userId, number, and message are required''), init_world {})"
    using T[where message = "JStr ''hello''"] by blast
  have c: "send_pdf_url False no_events fetch_ok accepting ''u1'' (JStr ''1234567890'') (JStr ''hello'')
        (JStr []) (init_world {})
     = Inr (Response 400 (ErrorBody ''userId, number, message, and pdfUrl are required''),
         init_world {})"
    using T[where number = "JStr ''1234567890''" and message = "JStr ''hello''"
        and pdfUrl = "JStr []" and fetch = fetch_ok] by simp
  have d: "send_pdf_base64 False no_events accepting ''u1'' (JStr ''1234567890'') (JStr ''hello'')
        JNull JUndefined (init_world {})
     = Inr (Response 400 (ErrorBody ''userId, number, message, and pdfBase64 are required''),
         init_world {})"
    using T[where number = "JStr ''1234567890''" and message = "JStr ''hello''"
        and ?pdfBase64.0 = JNull and filename = JUndefined] by simp
  have e: "send_image_base64 False no_events accepting ''u1'' (JStr ''1234567890'') (JStr ''hello'')
        (JStr ''AAAA'') JUndefined (JBool False) (init_world {})
     = Inr (Response 400
         (ErrorBody ''userId, number, message, imageBase64, and mimeType are required''),
         init_world {})"
    using T[where number = "JStr ''1234567890''" and message = "JStr ''hello''"
        and ?imageBase64.0 = "JStr ''AAAA''" and filename = JUndefined and mimeType = "JBool False"]
    by simp
  from a b c d e show ?thesis by blast
qed

end
